theory Spec2Isabelle
  imports Complex_Main
begin

section \<open>Carteira digital: the wallet ledger of \<open>api/services/carteira_service.py\<close>\<close>

text \<open>
  The development embeds the four balance-changing operations of \<open>CarteiraService\<close>
  (\<open>depositar\<close>, \<open>sacar\<close>, \<open>converter\<close>, \<open>transferir\<close>) and the repository
  calls they make (\<open>CarteiraRepository\<close>), as functions from a database state to a new
  database state and a result. A \<open>ValueError\<close> raised by the service is the left
  summand of the result; the state returned with it is the state at the moment of the
  raise.

  Amounts are Python floats in the source (\<open>valor: float\<close>). They are modelled as exact
  rationals: rounding is outside the model, and \<open>valor + valor * taxa\<close> is the exact sum.
\<close>

subsection \<open>Request and receipt models (\<open>api/models/carteira_models.py\<close>)\<close>

datatype status = ATIVA | BLOQUEADA

record OperacaoDeposito =
  codigo_moeda :: string
  valor :: rat

record OperacaoSaque =
  codigo_moeda :: string
  valor :: rat
  chave_privada :: string

record OperacaoConversao =
  moeda_origem :: string
  moeda_destino :: string
  valor :: rat
  chave_privada :: string

record OperacaoTransferencia =
  endereco_destino :: string
  codigo_moeda :: string
  valor :: rat
  chave_privada :: string

record ReciboMovimentacao =
  id_movimento :: int
  tipo :: string
  valor :: rat
  taxa :: rat
  saldo_atual :: rat

record ReciboConversao =
  id_conversao :: int
  moeda_origem :: string
  moeda_destino :: string
  valor_convertido :: rat
  valor_recebido :: rat
  taxa_paga :: rat
  cotacao :: rat

record ReciboTransferencia =
  id_transferencia :: int
  endereco_origem :: string
  endereco_destino :: string
  moeda :: string
  valor_transferido :: rat
  taxa_paga :: rat

subsection \<open>The database\<close>

text \<open>
  Modelled from the spec: the table declarations and \<open>api.persistence.db.get_connection\<close>
  are not among the sources; only the SQL statements of the repository are. The layout
  follows the statements and the spec's section on persisted state: a wallets table keyed
  by address, a currency reference table from code to id, a balances table keyed by
  (address, currency id), and three append-only ledgers whose row id is assigned at
  insertion, counting from 1 (\<open>lastrowid\<close>). \<open>get_connection\<close> is a transaction
  that commits when its block ends; no statement of the model fails, so every block
  commits. No foreign key or check constraint is modelled.
\<close>

record carteira_row =
  data_criacao :: nat
  status :: status
  hash_chave_privada :: string

record deposito_saque_row =
  endereco_carteira :: string
  id_moeda :: int
  tipo :: string
  valor :: rat
  taxa_valor :: rat

record conversao_row =
  endereco_carteira :: string
  id_moeda_origem :: int
  id_moeda_destino :: int
  valor_origem :: rat
  valor_destino :: rat
  taxa_percentual :: rat
  taxa_valor :: rat
  cotacao_utilizada :: rat

record transferencia_row =
  endereco_origem :: string
  endereco_destino :: string
  id_moeda :: int
  valor :: rat
  taxa_valor :: rat

record db =
  carteira :: "string \<rightharpoonup> carteira_row"
  moeda :: "string \<rightharpoonup> int"
  saldo_carteira :: "string \<times> int \<rightharpoonup> rat"
  deposito_saque :: "deposito_saque_row list"
  conversao :: "conversao_row list"
  transferencia :: "transferencia_row list"

subsection \<open>What the service reads from outside\<close>

text \<open>
  \<open>sha256_hexdigest k\<close> stands for \<open>hashlib.sha256(k.encode()).hexdigest()\<close>; the three
  rates are the values of \<open>float(os.getenv(..., default))\<close>; \<open>coinbase_spot o d\<close> is the
  whole quote lookup of \<open>converter\<close> (building the pair from the upper-cased codes, the
  HTTP request and the parsing of the amount): \<open>None\<close> when anything in the
  \<open>try\<close> block raises, which the source turns into one \<open>ValueError\<close>.
\<close>

record ambiente =
  sha256_hexdigest :: "string \<Rightarrow> string"
  TAXA_SAQUE_PERCENTUAL :: rat
  TAXA_CONVERSAO_PERCENTUAL :: rat
  TAXA_TRANSFERENCIA_PERCENTUAL :: rat
  coinbase_spot :: "string \<Rightarrow> string \<Rightarrow> rat option"

text \<open>The environment when none of the three variables is set.\<close>

definition ambiente_padrao ::
  "(string \<Rightarrow> string) \<Rightarrow> (string \<Rightarrow> string \<Rightarrow> rat option) \<Rightarrow> ambiente" where
  "ambiente_padrao h q =
     \<lparr>sha256_hexdigest = h,
      TAXA_SAQUE_PERCENTUAL = 1 / 100,
      TAXA_CONVERSAO_PERCENTUAL = 2 / 100,
      TAXA_TRANSFERENCIA_PERCENTUAL = 1 / 100,
      coinbase_spot = q\<rparr>"

text \<open>
  The kinds of \<open>ValueError\<close> the service raises, named as in the spec:
  \<^item> \<open>NotFound\<close>: "Carteira nao encontrada", "Carteira de origem nao encontrada",
    "Carteira de destino nao encontrada";
  \<^item> \<open>Unauthorized\<close>: "Chave privada invalida!";
  \<^item> \<open>InvalidCurrency\<close>: "Moeda ... invalida", "Moeda de origem ou destino invalida";
  \<^item> \<open>InsufficientFunds\<close>: "Saldo insuficiente ...";
  \<^item> \<open>InvalidOperation\<close>: "Nao e possivel transferir para a propria carteira.";
  \<^item> \<open>DestinationBlocked\<close>: "Carteira de destino esta bloqueada/inativa";
  \<^item> \<open>QuoteUnavailable\<close>: "Erro ao obter cotacao.".
\<close>

datatype erro =
    NotFound
  | Unauthorized
  | InvalidCurrency
  | InsufficientFunds
  | InvalidOperation
  | DestinationBlocked
  | QuoteUnavailable

subsection \<open>\<open>CarteiraRepository\<close>\<close>

definition buscar_por_endereco :: "db \<Rightarrow> string \<Rightarrow> carteira_row option" where
  "buscar_por_endereco s endereco = carteira s endereco"

definition buscar_id_moeda :: "db \<Rightarrow> string \<Rightarrow> int option" where
  "buscar_id_moeda s codigo = moeda s codigo"

definition buscar_saldo_especifico :: "db \<Rightarrow> string \<Rightarrow> int \<Rightarrow> rat" where
  "buscar_saldo_especifico s endereco idm =
     (case saldo_carteira s (endereco, idm) of Some v \<Rightarrow> v | None \<Rightarrow> 0)"

text \<open>
  \<open>INSERT INTO saldo_carteira ... ON DUPLICATE KEY UPDATE saldo = saldo + :valor\<close>:
  a new row when the key is absent, an addition otherwise.
\<close>

definition insert_saldo_on_duplicate ::
  "(string \<times> int \<rightharpoonup> rat) \<Rightarrow> string \<Rightarrow> int \<Rightarrow> rat \<Rightarrow> (string \<times> int \<rightharpoonup> rat)" where
  "insert_saldo_on_duplicate t endereco idm v =
     t((endereco, idm) \<mapsto> (case t (endereco, idm) of None \<Rightarrow> v | Some s \<Rightarrow> s + v))"

text \<open>
  \<open>UPDATE saldo_carteira SET saldo = saldo - :total WHERE endereco_carteira = ... AND
  id_moeda = ...\<close>: changes the row when there is one, and nothing otherwise.
\<close>

definition update_saldo_menos ::
  "(string \<times> int \<rightharpoonup> rat) \<Rightarrow> string \<Rightarrow> int \<Rightarrow> rat \<Rightarrow> (string \<times> int \<rightharpoonup> rat)" where
  "update_saldo_menos t endereco idm total_debito =
     (case t (endereco, idm) of
        None \<Rightarrow> t
      | Some s \<Rightarrow> t((endereco, idm) \<mapsto> s - total_debito))"

definition realizar_deposito :: "db \<Rightarrow> string \<Rightarrow> int \<Rightarrow> rat \<Rightarrow> db \<times> int" where
  "realizar_deposito s endereco idm v =
     (let id_movimento = int (length (deposito_saque s)) + 1;
          linha = \<lparr>deposito_saque_row.endereco_carteira = endereco,
                   deposito_saque_row.id_moeda = idm,
                   deposito_saque_row.tipo = ''DEPOSITO'',
                   deposito_saque_row.valor = v,
                   deposito_saque_row.taxa_valor = 0\<rparr>
      in (s\<lparr>deposito_saque := deposito_saque s @ [linha],
            saldo_carteira := insert_saldo_on_duplicate (saldo_carteira s) endereco idm v\<rparr>,
          id_movimento))"

definition realizar_saque :: "db \<Rightarrow> string \<Rightarrow> int \<Rightarrow> rat \<Rightarrow> rat \<Rightarrow> db \<times> int" where
  "realizar_saque s endereco idm v tx =
     (let total_debito = v + tx;
          id_movimento = int (length (deposito_saque s)) + 1;
          linha = \<lparr>deposito_saque_row.endereco_carteira = endereco,
                   deposito_saque_row.id_moeda = idm,
                   deposito_saque_row.tipo = ''SAQUE'',
                   deposito_saque_row.valor = v,
                   deposito_saque_row.taxa_valor = tx\<rparr>
      in (s\<lparr>deposito_saque := deposito_saque s @ [linha],
            saldo_carteira := update_saldo_menos (saldo_carteira s) endereco idm total_debito\<rparr>,
          id_movimento))"

definition realizar_conversao ::
  "db \<Rightarrow> string \<Rightarrow> int \<Rightarrow> int \<Rightarrow> rat \<Rightarrow> rat \<Rightarrow> rat \<Rightarrow> rat \<Rightarrow> rat \<Rightarrow> db \<times> int" where
  "realizar_conversao s endereco id_origem id_destino v_origem v_destino tx_valor tx_percentual cota =
     (let total_debito = v_origem + tx_valor;
          id_conv = int (length (conversao s)) + 1;
          linha = \<lparr>conversao_row.endereco_carteira = endereco,
                   id_moeda_origem = id_origem,
                   id_moeda_destino = id_destino,
                   valor_origem = v_origem,
                   valor_destino = v_destino,
                   taxa_percentual = tx_percentual,
                   conversao_row.taxa_valor = tx_valor,
                   cotacao_utilizada = cota\<rparr>;
          t1 = update_saldo_menos (saldo_carteira s) endereco id_origem total_debito;
          t2 = insert_saldo_on_duplicate t1 endereco id_destino v_destino
      in (s\<lparr>conversao := conversao s @ [linha], saldo_carteira := t2\<rparr>, id_conv))"

definition realizar_transferencia ::
  "db \<Rightarrow> string \<Rightarrow> string \<Rightarrow> int \<Rightarrow> rat \<Rightarrow> rat \<Rightarrow> db \<times> int" where
  "realizar_transferencia s end_origem end_destino idm v tx =
     (let total_debito_origem = v + tx;
          id_transf = int (length (transferencia s)) + 1;
          linha = \<lparr>transferencia_row.endereco_origem = end_origem,
                   transferencia_row.endereco_destino = end_destino,
                   transferencia_row.id_moeda = idm,
                   transferencia_row.valor = v,
                   transferencia_row.taxa_valor = tx\<rparr>;
          t1 = update_saldo_menos (saldo_carteira s) end_origem idm total_debito_origem;
          t2 = insert_saldo_on_duplicate t1 end_destino idm v
      in (s\<lparr>transferencia := transferencia s @ [linha], saldo_carteira := t2\<rparr>, id_transf))"

subsection \<open>\<open>CarteiraService\<close>\<close>

text \<open>
  \<open>if not id_moeda\<close> is Python truthiness on an \<open>Optional[int]\<close>: it holds for
  \<open>None\<close> and for the id \<open>0\<close>.
\<close>

definition py_not :: "int option \<Rightarrow> bool" where
  "py_not x = (case x of None \<Rightarrow> True | Some i \<Rightarrow> i = 0)"

definition depositar ::
  "db \<Rightarrow> string \<Rightarrow> OperacaoDeposito \<Rightarrow> db \<times> (erro + ReciboMovimentacao)" where
  "depositar s endereco dados =
     (case buscar_id_moeda s (OperacaoDeposito.codigo_moeda dados) of
        None \<Rightarrow> (s, Inl InvalidCurrency)
      | Some idm \<Rightarrow>
          if py_not (Some idm) then (s, Inl InvalidCurrency)
          else
            (let (s1, id_mov) = realizar_deposito s endereco idm (OperacaoDeposito.valor dados);
                 novo_saldo = buscar_saldo_especifico s1 endereco idm
             in (s1, Inr \<lparr>id_movimento = id_mov,
                          ReciboMovimentacao.tipo = ''DEPOSITO'',
                          ReciboMovimentacao.valor = OperacaoDeposito.valor dados,
                          taxa = 0,
                          saldo_atual = novo_saldo\<rparr>)))"

definition sacar ::
  "ambiente \<Rightarrow> db \<Rightarrow> string \<Rightarrow> OperacaoSaque \<Rightarrow> db \<times> (erro + ReciboMovimentacao)" where
  "sacar env s endereco dados =
     (case buscar_por_endereco s endereco of
        None \<Rightarrow> (s, Inl NotFound)
      | Some carteira_row \<Rightarrow>
          if hash_chave_privada carteira_row
               \<noteq> sha256_hexdigest env (OperacaoSaque.chave_privada dados)
          then (s, Inl Unauthorized)
          else
            (case buscar_id_moeda s (OperacaoSaque.codigo_moeda dados) of
               None \<Rightarrow> (s, Inl InvalidCurrency)
             | Some idm \<Rightarrow>
                 if py_not (Some idm) then (s, Inl InvalidCurrency)
                 else
                   (let taxa_percentual = TAXA_SAQUE_PERCENTUAL env;
                        taxa_valor = OperacaoSaque.valor dados * taxa_percentual;
                        total_necessario = OperacaoSaque.valor dados + taxa_valor;
                        saldo_atual = buscar_saldo_especifico s endereco idm
                    in if saldo_atual < total_necessario then (s, Inl InsufficientFunds)
                       else
                         (let (s1, id_mov) =
                                realizar_saque s endereco idm (OperacaoSaque.valor dados) taxa_valor;
                              novo_saldo = buscar_saldo_especifico s1 endereco idm
                          in (s1, Inr \<lparr>id_movimento = id_mov,
                                       ReciboMovimentacao.tipo = ''SAQUE'',
                                       ReciboMovimentacao.valor = OperacaoSaque.valor dados,
                                       taxa = taxa_valor,
                                       saldo_atual = novo_saldo\<rparr>)))))"

definition converter ::
  "ambiente \<Rightarrow> db \<Rightarrow> string \<Rightarrow> OperacaoConversao \<Rightarrow> db \<times> (erro + ReciboConversao)" where
  "converter env s endereco dados =
     (case buscar_por_endereco s endereco of
        None \<Rightarrow> (s, Inl NotFound)
      | Some carteira_row \<Rightarrow>
          if hash_chave_privada carteira_row
               \<noteq> sha256_hexdigest env (OperacaoConversao.chave_privada dados)
          then (s, Inl Unauthorized)
          else
            (let id_origem = buscar_id_moeda s (OperacaoConversao.moeda_origem dados);
                 id_destino = buscar_id_moeda s (OperacaoConversao.moeda_destino dados)
             in if py_not id_origem \<or> py_not id_destino then (s, Inl InvalidCurrency)
                else
                  (case (id_origem, id_destino) of
                     (Some ido, Some idd) \<Rightarrow>
                       (case coinbase_spot env (OperacaoConversao.moeda_origem dados)
                                               (OperacaoConversao.moeda_destino dados) of
                          None \<Rightarrow> (s, Inl QuoteUnavailable)
                        | Some cota \<Rightarrow>
                            (let taxa_percentual = TAXA_CONVERSAO_PERCENTUAL env;
                                 taxa_valor = OperacaoConversao.valor dados * taxa_percentual;
                                 total_debito = OperacaoConversao.valor dados + taxa_valor;
                                 valor_destino = OperacaoConversao.valor dados * cota;
                                 saldo_origem = buscar_saldo_especifico s endereco ido
                             in if saldo_origem < total_debito then (s, Inl InsufficientFunds)
                                else
                                  (let (s1, id_conv) =
                                         realizar_conversao s endereco ido idd
                                           (OperacaoConversao.valor dados) valor_destino
                                           taxa_valor taxa_percentual cota
                                   in (s1, Inr \<lparr>id_conversao = id_conv,
                                                ReciboConversao.moeda_origem =
                                                  OperacaoConversao.moeda_origem dados,
                                                ReciboConversao.moeda_destino =
                                                  OperacaoConversao.moeda_destino dados,
                                                valor_convertido = OperacaoConversao.valor dados,
                                                valor_recebido = valor_destino,
                                                ReciboConversao.taxa_paga = taxa_valor,
                                                cotacao = cota\<rparr>))))
                   | _ \<Rightarrow> (s, Inl InvalidCurrency))))"

definition transferir ::
  "ambiente \<Rightarrow> db \<Rightarrow> string \<Rightarrow> OperacaoTransferencia \<Rightarrow> db \<times> (erro + ReciboTransferencia)" where
  "transferir env s end_origem dados =
     (case buscar_por_endereco s end_origem of
        None \<Rightarrow> (s, Inl NotFound)
      | Some origem_row \<Rightarrow>
          if hash_chave_privada origem_row
               \<noteq> sha256_hexdigest env (OperacaoTransferencia.chave_privada dados)
          then (s, Inl Unauthorized)
          else if end_origem = OperacaoTransferencia.endereco_destino dados
          then (s, Inl InvalidOperation)
          else
            (case buscar_por_endereco s (OperacaoTransferencia.endereco_destino dados) of
               None \<Rightarrow> (s, Inl NotFound)
             | Some destino_row \<Rightarrow>
                 if status destino_row \<noteq> ATIVA then (s, Inl DestinationBlocked)
                 else
                   (case buscar_id_moeda s (OperacaoTransferencia.codigo_moeda dados) of
                      None \<Rightarrow> (s, Inl InvalidCurrency)
                    | Some idm \<Rightarrow>
                        if py_not (Some idm) then (s, Inl InvalidCurrency)
                        else
                          (let taxa_percentual = TAXA_TRANSFERENCIA_PERCENTUAL env;
                               taxa_valor = OperacaoTransferencia.valor dados * taxa_percentual;
                               total_debito = OperacaoTransferencia.valor dados + taxa_valor;
                               saldo_origem = buscar_saldo_especifico s end_origem idm
                           in if saldo_origem < total_debito then (s, Inl InsufficientFunds)
                              else
                                (let (s1, id_transf) =
                                       realizar_transferencia s end_origem
                                         (OperacaoTransferencia.endereco_destino dados) idm
                                         (OperacaoTransferencia.valor dados) taxa_valor
                                 in (s1, Inr \<lparr>id_transferencia = id_transf,
                                              ReciboTransferencia.endereco_origem = end_origem,
                                              ReciboTransferencia.endereco_destino =
                                                OperacaoTransferencia.endereco_destino dados,
                                              moeda = OperacaoTransferencia.codigo_moeda dados,
                                              valor_transferido = OperacaoTransferencia.valor dados,
                                              ReciboTransferencia.taxa_paga = taxa_valor\<rparr>))))))"

section \<open>The operations in the arithmetic of the code\<close>

text \<open>
  The service computes with Python floats and the database with the arithmetic of its
  balance column. Here the six arithmetic steps of the source are parameters, so that a
  statement about these definitions holds whatever the rounding:
  \<^item> \<open>float_mul\<close> and \<open>float_add\<close> are \<open>*\<close> and \<open>+\<close> on Python floats
    (\<open>dados.valor * taxa_percentual\<close>, \<open>dados.valor + taxa_valor\<close>);
  \<^item> \<open>float_de_saldo\<close> is \<open>float(row["saldo"])\<close>;
  \<^item> \<open>sql_valor\<close> is the value the balance column holds after
    \<open>INSERT ... VALUES (..., :valor)\<close>, \<open>sql_mais\<close> the one after \<open>saldo + :valor\<close>,
    \<open>sql_menos\<close> the one after \<open>saldo - :total\<close>.
  Finite floats and column values are rational numbers, and \<open><\<close> on them is the order
  of the rationals; NaN and the infinities are outside the model.
\<close>

record aritmetica =
  float_mul :: "rat \<Rightarrow> rat \<Rightarrow> rat"
  float_add :: "rat \<Rightarrow> rat \<Rightarrow> rat"
  float_de_saldo :: "rat \<Rightarrow> rat"
  sql_valor :: "rat \<Rightarrow> rat"
  sql_mais :: "rat \<Rightarrow> rat \<Rightarrow> rat"
  sql_menos :: "rat \<Rightarrow> rat \<Rightarrow> rat"

text \<open>Arithmetic that never rounds.\<close>

definition exata :: aritmetica where
  "exata =
     \<lparr>float_mul = (*), float_add = (+), float_de_saldo = id,
      sql_valor = id, sql_mais = (+), sql_menos = (-)\<rparr>"

text \<open>
  IEEE 754 binary64 with round-to-nearest, ties-to-even, which is what a Python float
  operation does on the normal range: \<open>arred64 x\<close> is the float nearest to \<open>x\<close>.
  \<open>escala n m u\<close> searches, from \<open>u\<close>, the power of two \<open>u\<close> with
  \<open>2^52 * u \<le> m < 2^53 * u\<close> (\<open>n\<close> bounds the search), and \<open>meio_par\<close> rounds the
  53-bit significand to an integer. Overflow and subnormal numbers are not modelled.
\<close>

definition meio_par :: "rat \<Rightarrow> int" where
  "meio_par m =
     (let n = \<lfloor>m\<rfloor>; r = m - of_int n
      in if r < 1 / 2 then n else if 1 / 2 < r then n + 1 else if even n then n else n + 1)"

fun escala :: "nat \<Rightarrow> rat \<Rightarrow> rat \<Rightarrow> rat" where
  "escala 0 m u = u"
| "escala (Suc n) m u =
     (if 9007199254740992 * u \<le> m then escala n m (2 * u)
      else if m < 4503599627370496 * u then escala n m (u / 2)
      else u)"

definition arred64 :: "rat \<Rightarrow> rat" where
  "arred64 x =
     (if x = 0 then 0
      else (let u = escala 2200 \<bar>x\<bar> 1 in of_int (meio_par (x / u)) * u))"

text \<open>
  Python floats throughout, over a balance column that holds binary64 values. The column
  type is an assumption of the examples that use \<open>binario64\<close>, not of any theorem.
\<close>

definition binario64 :: aritmetica where
  "binario64 =
     \<lparr>float_mul = (\<lambda>a b. arred64 (a * b)),
      float_add = (\<lambda>a b. arred64 (a + b)),
      float_de_saldo = arred64,
      sql_valor = arred64,
      sql_mais = (\<lambda>s v. arred64 (s + v)),
      sql_menos = (\<lambda>s t. arred64 (s - t))\<rparr>"

subsection \<open>\<open>CarteiraRepository\<close>, arithmetic as a parameter\<close>

definition buscar_saldo_especifico_ar :: "aritmetica \<Rightarrow> db \<Rightarrow> string \<Rightarrow> int \<Rightarrow> rat" where
  "buscar_saldo_especifico_ar ar s endereco idm =
     (case saldo_carteira s (endereco, idm) of
        Some v \<Rightarrow> float_de_saldo ar v
      | None \<Rightarrow> 0)"

definition insert_saldo_on_duplicate_ar ::
  "aritmetica \<Rightarrow> (string \<times> int \<rightharpoonup> rat) \<Rightarrow> string \<Rightarrow> int \<Rightarrow> rat \<Rightarrow> (string \<times> int \<rightharpoonup> rat)" where
  "insert_saldo_on_duplicate_ar ar t endereco idm v =
     t((endereco, idm) \<mapsto>
        (case t (endereco, idm) of None \<Rightarrow> sql_valor ar v | Some x \<Rightarrow> sql_mais ar x v))"

definition update_saldo_menos_ar ::
  "aritmetica \<Rightarrow> (string \<times> int \<rightharpoonup> rat) \<Rightarrow> string \<Rightarrow> int \<Rightarrow> rat \<Rightarrow> (string \<times> int \<rightharpoonup> rat)" where
  "update_saldo_menos_ar ar t endereco idm total_debito =
     (case t (endereco, idm) of
        None \<Rightarrow> t
      | Some x \<Rightarrow> t((endereco, idm) \<mapsto> sql_menos ar x total_debito))"

definition realizar_deposito_ar :: "aritmetica \<Rightarrow> db \<Rightarrow> string \<Rightarrow> int \<Rightarrow> rat \<Rightarrow> db \<times> int" where
  "realizar_deposito_ar ar s endereco idm v =
     (let id_movimento = int (length (deposito_saque s)) + 1;
          linha = \<lparr>deposito_saque_row.endereco_carteira = endereco,
                   deposito_saque_row.id_moeda = idm,
                   deposito_saque_row.tipo = ''DEPOSITO'',
                   deposito_saque_row.valor = v,
                   deposito_saque_row.taxa_valor = 0\<rparr>
      in (s\<lparr>deposito_saque := deposito_saque s @ [linha],
            saldo_carteira := insert_saldo_on_duplicate_ar ar (saldo_carteira s) endereco idm v\<rparr>,
          id_movimento))"

definition realizar_saque_ar ::
  "aritmetica \<Rightarrow> db \<Rightarrow> string \<Rightarrow> int \<Rightarrow> rat \<Rightarrow> rat \<Rightarrow> db \<times> int" where
  "realizar_saque_ar ar s endereco idm v tx =
     (let total_debito = float_add ar v tx;
          id_movimento = int (length (deposito_saque s)) + 1;
          linha = \<lparr>deposito_saque_row.endereco_carteira = endereco,
                   deposito_saque_row.id_moeda = idm,
                   deposito_saque_row.tipo = ''SAQUE'',
                   deposito_saque_row.valor = v,
                   deposito_saque_row.taxa_valor = tx\<rparr>
      in (s\<lparr>deposito_saque := deposito_saque s @ [linha],
            saldo_carteira :=
              update_saldo_menos_ar ar (saldo_carteira s) endereco idm total_debito\<rparr>,
          id_movimento))"

definition realizar_conversao_ar ::
  "aritmetica \<Rightarrow> db \<Rightarrow> string \<Rightarrow> int \<Rightarrow> int \<Rightarrow> rat \<Rightarrow> rat \<Rightarrow> rat \<Rightarrow> rat \<Rightarrow> rat \<Rightarrow> db \<times> int" where
  "realizar_conversao_ar ar s endereco id_origem id_destino v_origem v_destino
       tx_valor tx_percentual cota =
     (let total_debito = float_add ar v_origem tx_valor;
          id_conv = int (length (conversao s)) + 1;
          linha = \<lparr>conversao_row.endereco_carteira = endereco,
                   id_moeda_origem = id_origem,
                   id_moeda_destino = id_destino,
                   valor_origem = v_origem,
                   valor_destino = v_destino,
                   taxa_percentual = tx_percentual,
                   conversao_row.taxa_valor = tx_valor,
                   cotacao_utilizada = cota\<rparr>;
          t1 = update_saldo_menos_ar ar (saldo_carteira s) endereco id_origem total_debito;
          t2 = insert_saldo_on_duplicate_ar ar t1 endereco id_destino v_destino
      in (s\<lparr>conversao := conversao s @ [linha], saldo_carteira := t2\<rparr>, id_conv))"

definition realizar_transferencia_ar ::
  "aritmetica \<Rightarrow> db \<Rightarrow> string \<Rightarrow> string \<Rightarrow> int \<Rightarrow> rat \<Rightarrow> rat \<Rightarrow> db \<times> int" where
  "realizar_transferencia_ar ar s end_origem end_destino idm v tx =
     (let total_debito_origem = float_add ar v tx;
          id_transf = int (length (transferencia s)) + 1;
          linha = \<lparr>transferencia_row.endereco_origem = end_origem,
                   transferencia_row.endereco_destino = end_destino,
                   transferencia_row.id_moeda = idm,
                   transferencia_row.valor = v,
                   transferencia_row.taxa_valor = tx\<rparr>;
          t1 = update_saldo_menos_ar ar (saldo_carteira s) end_origem idm total_debito_origem;
          t2 = insert_saldo_on_duplicate_ar ar t1 end_destino idm v
      in (s\<lparr>transferencia := transferencia s @ [linha], saldo_carteira := t2\<rparr>, id_transf))"

subsection \<open>\<open>CarteiraService\<close>, arithmetic as a parameter\<close>

definition depositar_ar ::
  "aritmetica \<Rightarrow> db \<Rightarrow> string \<Rightarrow> OperacaoDeposito \<Rightarrow> db \<times> (erro + ReciboMovimentacao)" where
  "depositar_ar ar s endereco dados =
     (case buscar_id_moeda s (OperacaoDeposito.codigo_moeda dados) of
        None \<Rightarrow> (s, Inl InvalidCurrency)
      | Some idm \<Rightarrow>
          if py_not (Some idm) then (s, Inl InvalidCurrency)
          else
            (let (s1, id_mov) =
                   realizar_deposito_ar ar s endereco idm (OperacaoDeposito.valor dados);
                 novo_saldo = buscar_saldo_especifico_ar ar s1 endereco idm
             in (s1, Inr \<lparr>id_movimento = id_mov,
                          ReciboMovimentacao.tipo = ''DEPOSITO'',
                          ReciboMovimentacao.valor = OperacaoDeposito.valor dados,
                          taxa = 0,
                          saldo_atual = novo_saldo\<rparr>)))"

text \<open>
  \<open>sacar\<close> in its two parts: lines 84 to 102 only read the store and decide, lines 104
  to 113 write and build the receipt. Each repository call is a \<open>get_connection\<close> block
  of its own, so the store can change between the two parts when requests overlap.
\<close>

definition sacar_verificar ::
  "aritmetica \<Rightarrow> ambiente \<Rightarrow> db \<Rightarrow> string \<Rightarrow> OperacaoSaque \<Rightarrow> erro + int \<times> rat" where
  "sacar_verificar ar env s endereco dados =
     (case buscar_por_endereco s endereco of
        None \<Rightarrow> Inl NotFound
      | Some carteira_row \<Rightarrow>
          if hash_chave_privada carteira_row
               \<noteq> sha256_hexdigest env (OperacaoSaque.chave_privada dados)
          then Inl Unauthorized
          else
            (case buscar_id_moeda s (OperacaoSaque.codigo_moeda dados) of
               None \<Rightarrow> Inl InvalidCurrency
             | Some idm \<Rightarrow>
                 if py_not (Some idm) then Inl InvalidCurrency
                 else
                   (let taxa_percentual = TAXA_SAQUE_PERCENTUAL env;
                        taxa_valor = float_mul ar (OperacaoSaque.valor dados) taxa_percentual;
                        total_necessario = float_add ar (OperacaoSaque.valor dados) taxa_valor;
                        saldo_atual = buscar_saldo_especifico_ar ar s endereco idm
                    in if saldo_atual < total_necessario then Inl InsufficientFunds
                       else Inr (idm, taxa_valor))))"

definition sacar_debitar ::
  "aritmetica \<Rightarrow> db \<Rightarrow> string \<Rightarrow> OperacaoSaque \<Rightarrow> int \<Rightarrow> rat \<Rightarrow> db \<times> ReciboMovimentacao" where
  "sacar_debitar ar s endereco dados idm tx_valor =
     (let (s1, id_mov) =
            realizar_saque_ar ar s endereco idm (OperacaoSaque.valor dados) tx_valor;
          novo_saldo = buscar_saldo_especifico_ar ar s1 endereco idm
      in (s1, \<lparr>id_movimento = id_mov,
               ReciboMovimentacao.tipo = ''SAQUE'',
               ReciboMovimentacao.valor = OperacaoSaque.valor dados,
               taxa = tx_valor,
               saldo_atual = novo_saldo\<rparr>))"

definition sacar_ar ::
  "aritmetica \<Rightarrow> ambiente \<Rightarrow> db \<Rightarrow> string \<Rightarrow> OperacaoSaque
     \<Rightarrow> db \<times> (erro + ReciboMovimentacao)" where
  "sacar_ar ar env s endereco dados =
     (case sacar_verificar ar env s endereco dados of
        Inl e \<Rightarrow> (s, Inl e)
      | Inr (idm, tx_valor) \<Rightarrow>
          (let (s1, recibo) = sacar_debitar ar s endereco dados idm tx_valor
           in (s1, Inr recibo)))"

definition converter_ar ::
  "aritmetica \<Rightarrow> ambiente \<Rightarrow> db \<Rightarrow> string \<Rightarrow> OperacaoConversao
     \<Rightarrow> db \<times> (erro + ReciboConversao)" where
  "converter_ar ar env s endereco dados =
     (case buscar_por_endereco s endereco of
        None \<Rightarrow> (s, Inl NotFound)
      | Some carteira_row \<Rightarrow>
          if hash_chave_privada carteira_row
               \<noteq> sha256_hexdigest env (OperacaoConversao.chave_privada dados)
          then (s, Inl Unauthorized)
          else
            (let id_origem = buscar_id_moeda s (OperacaoConversao.moeda_origem dados);
                 id_destino = buscar_id_moeda s (OperacaoConversao.moeda_destino dados)
             in if py_not id_origem \<or> py_not id_destino then (s, Inl InvalidCurrency)
                else
                  (case (id_origem, id_destino) of
                     (Some ido, Some idd) \<Rightarrow>
                       (case coinbase_spot env (OperacaoConversao.moeda_origem dados)
                                               (OperacaoConversao.moeda_destino dados) of
                          None \<Rightarrow> (s, Inl QuoteUnavailable)
                        | Some cota \<Rightarrow>
                            (let taxa_percentual = TAXA_CONVERSAO_PERCENTUAL env;
                                 taxa_valor =
                                   float_mul ar (OperacaoConversao.valor dados) taxa_percentual;
                                 total_debito =
                                   float_add ar (OperacaoConversao.valor dados) taxa_valor;
                                 valor_destino =
                                   float_mul ar (OperacaoConversao.valor dados) cota;
                                 saldo_origem = buscar_saldo_especifico_ar ar s endereco ido
                             in if saldo_origem < total_debito then (s, Inl InsufficientFunds)
                                else
                                  (let (s1, id_conv) =
                                         realizar_conversao_ar ar s endereco ido idd
                                           (OperacaoConversao.valor dados) valor_destino
                                           taxa_valor taxa_percentual cota
                                   in (s1, Inr \<lparr>id_conversao = id_conv,
                                                ReciboConversao.moeda_origem =
                                                  OperacaoConversao.moeda_origem dados,
                                                ReciboConversao.moeda_destino =
                                                  OperacaoConversao.moeda_destino dados,
                                                valor_convertido = OperacaoConversao.valor dados,
                                                valor_recebido = valor_destino,
                                                ReciboConversao.taxa_paga = taxa_valor,
                                                cotacao = cota\<rparr>))))
                   | _ \<Rightarrow> (s, Inl InvalidCurrency))))"

definition transferir_ar ::
  "aritmetica \<Rightarrow> ambiente \<Rightarrow> db \<Rightarrow> string \<Rightarrow> OperacaoTransferencia
     \<Rightarrow> db \<times> (erro + ReciboTransferencia)" where
  "transferir_ar ar env s end_origem dados =
     (case buscar_por_endereco s end_origem of
        None \<Rightarrow> (s, Inl NotFound)
      | Some origem_row \<Rightarrow>
          if hash_chave_privada origem_row
               \<noteq> sha256_hexdigest env (OperacaoTransferencia.chave_privada dados)
          then (s, Inl Unauthorized)
          else if end_origem = OperacaoTransferencia.endereco_destino dados
          then (s, Inl InvalidOperation)
          else
            (case buscar_por_endereco s (OperacaoTransferencia.endereco_destino dados) of
               None \<Rightarrow> (s, Inl NotFound)
             | Some destino_row \<Rightarrow>
                 if status destino_row \<noteq> ATIVA then (s, Inl DestinationBlocked)
                 else
                   (case buscar_id_moeda s (OperacaoTransferencia.codigo_moeda dados) of
                      None \<Rightarrow> (s, Inl InvalidCurrency)
                    | Some idm \<Rightarrow>
                        if py_not (Some idm) then (s, Inl InvalidCurrency)
                        else
                          (let taxa_percentual = TAXA_TRANSFERENCIA_PERCENTUAL env;
                               taxa_valor =
                                 float_mul ar (OperacaoTransferencia.valor dados) taxa_percentual;
                               total_debito =
                                 float_add ar (OperacaoTransferencia.valor dados) taxa_valor;
                               saldo_origem = buscar_saldo_especifico_ar ar s end_origem idm
                           in if saldo_origem < total_debito then (s, Inl InsufficientFunds)
                              else
                                (let (s1, id_transf) =
                                       realizar_transferencia_ar ar s end_origem
                                         (OperacaoTransferencia.endereco_destino dados) idm
                                         (OperacaoTransferencia.valor dados) taxa_valor
                                 in (s1, Inr \<lparr>id_transferencia = id_transf,
                                              ReciboTransferencia.endereco_origem = end_origem,
                                              ReciboTransferencia.endereco_destino =
                                                OperacaoTransferencia.endereco_destino dados,
                                              moeda = OperacaoTransferencia.codigo_moeda dados,
                                              valor_transferido = OperacaoTransferencia.valor dados,
                                              ReciboTransferencia.taxa_paga = taxa_valor\<rparr>))))))"

subsection \<open>Overlapping withdrawals\<close>

text \<open>
  Requests that run at the same time, each a wallet address, a withdrawal and how far it
  has got: not started, past its checks (with the currency id and fee it computed), or
  finished with its result. A step of a request runs its next part against the store as
  it is then. A schedule is the list of the requests stepped, in order: every order in
  which the parts of the requests can follow one another is a schedule.
\<close>

datatype fase =
    Aguardando
  | Verificado int rat
  | Terminado "erro + ReciboMovimentacao"

type_synonym pedido = "string \<times> OperacaoSaque \<times> fase"

fun passo :: "aritmetica \<Rightarrow> ambiente \<Rightarrow> db \<Rightarrow> pedido \<Rightarrow> db \<times> pedido" where
  "passo ar env s (endereco, dados, Aguardando) =
     (case sacar_verificar ar env s endereco dados of
        Inl e \<Rightarrow> (s, (endereco, dados, Terminado (Inl e)))
      | Inr (idm, tx_valor) \<Rightarrow> (s, (endereco, dados, Verificado idm tx_valor)))"
| "passo ar env s (endereco, dados, Verificado idm tx_valor) =
     (let (s1, recibo) = sacar_debitar ar s endereco dados idm tx_valor
      in (s1, (endereco, dados, Terminado (Inr recibo))))"
| "passo ar env s (endereco, dados, Terminado r) = (s, (endereco, dados, Terminado r))"

fun executar ::
  "aritmetica \<Rightarrow> ambiente \<Rightarrow> nat list \<Rightarrow> db \<times> pedido list \<Rightarrow> db \<times> pedido list" where
  "executar ar env [] c = c"
| "executar ar env (i # is) (s, ps) =
     (if i < length ps
      then (let (s1, p1) = passo ar env s (ps ! i) in executar ar env is (s1, ps[i := p1]))
      else executar ar env is (s, ps))"

text \<open>One request after the other: both steps of request 0, then both of request 1, ...\<close>

definition em_serie :: "nat \<Rightarrow> nat list" where
  "em_serie k = concat (map (\<lambda>i. [i, i]) [0..<k])"

section \<open>A concrete store for the examples\<close>

text \<open>
  Every theorem below is stated for an arbitrary digest function and an arbitrary quote
  source. The closed examples need particular ones: \<open>hash_de_exemplo\<close> stands in for
  the digest, \<open>cotacao_de_exemplo\<close> quotes three pairs and fails on every other.
  The store has an active wallet \<open>W\<close> holding 100 USD, a blocked wallet \<open>B\<close> with no
  balance row, and the currencies USD (id 1) and EUR (id 2).
\<close>

definition hash_de_exemplo :: "string \<Rightarrow> string" where
  "hash_de_exemplo k = ''sha256:'' @ k"

definition cotacao_de_exemplo :: "string \<Rightarrow> string \<Rightarrow> rat option" where
  "cotacao_de_exemplo origem destino =
     (if origem = ''USD'' \<and> destino = ''EUR'' then Some (9 / 10)
      else if origem = ''EUR'' \<and> destino = ''USD'' then Some (11 / 10)
      else if origem = ''USD'' \<and> destino = ''USD'' then Some 1
      else None)"

definition ambiente_exemplo :: ambiente where
  "ambiente_exemplo = ambiente_padrao hash_de_exemplo cotacao_de_exemplo"

definition db_exemplo :: db where
  "db_exemplo =
     \<lparr>carteira =
        [''W'' \<mapsto> \<lparr>data_criacao = 0, status = ATIVA,
                    hash_chave_privada = hash_de_exemplo ''chave-w''\<rparr>,
         ''B'' \<mapsto> \<lparr>data_criacao = 1, status = BLOQUEADA,
                    hash_chave_privada = hash_de_exemplo ''chave-b''\<rparr>],
      moeda = [''USD'' \<mapsto> 1, ''EUR'' \<mapsto> 2],
      saldo_carteira = [(''W'', 1) \<mapsto> 100],
      deposito_saque = [],
      conversao = [],
      transferencia = []\<rparr>"

text \<open>The example store after the blocked wallet \<open>B\<close> has received 100 USD.\<close>

definition db_exemplo_b :: db where
  "db_exemplo_b =
     fst (depositar db_exemplo ''B'' \<lparr>OperacaoDeposito.codigo_moeda = ''USD'', valor = 100\<rparr>)"

text \<open>
  The default environment as Python holds it: the rates and the quotes are the floats
  nearest to the decimal numbers.
\<close>

definition ambiente_64 :: ambiente where
  "ambiente_64 =
     \<lparr>sha256_hexdigest = hash_de_exemplo,
      TAXA_SAQUE_PERCENTUAL = arred64 (1 / 100),
      TAXA_CONVERSAO_PERCENTUAL = arred64 (2 / 100),
      TAXA_TRANSFERENCIA_PERCENTUAL = arred64 (1 / 100),
      coinbase_spot = (\<lambda>origem destino. map_option arred64 (cotacao_de_exemplo origem destino))\<rparr>"

text \<open>The example store with a given USD balance for \<open>W\<close>, and a withdrawal by \<open>W\<close>.\<close>

definition db_w_usd :: "rat \<Rightarrow> db" where
  "db_w_usd v = db_exemplo\<lparr>saldo_carteira := [(''W'', 1) \<mapsto> v]\<rparr>"

definition saque_w_usd :: "rat \<Rightarrow> OperacaoSaque" where
  "saque_w_usd a =
     \<lparr>OperacaoSaque.codigo_moeda = ''USD'', valor = a, chave_privada = ''chave-w''\<rparr>"

section \<open>Unfolding the model\<close>

lemmas repo_defs = buscar_por_endereco_def buscar_id_moeda_def buscar_saldo_especifico_def
  insert_saldo_on_duplicate_def update_saldo_menos_def realizar_deposito_def realizar_saque_def
  realizar_conversao_def realizar_transferencia_def py_not_def Let_def
lemmas ex_defs = db_exemplo_def ambiente_exemplo_def ambiente_padrao_def hash_de_exemplo_def
  cotacao_de_exemplo_def

lemmas ex64_defs = ambiente_64_def binario64_def db_w_usd_def saque_w_usd_def

text \<open>
  The quotient of two numerals under \<open>floor\<close>, and one step of the search of
  \<open>escala\<close> on a numeral bound: what the simplifier needs to evaluate \<open>arred64\<close>.
\<close>

lemma floor_rat_numeral:
  "\<lfloor>(numeral a :: rat) / numeral b\<rfloor> = numeral a div numeral b"
  by (metis floor_divide_of_int_eq of_int_numeral)

lemma floor_rat_neg_numeral:
  "\<lfloor>- ((numeral a :: rat) / numeral b)\<rfloor> = - numeral a div numeral b"
  by (metis divide_minus_left floor_divide_of_int_eq of_int_neg_numeral of_int_numeral)

lemma escala_numeral:
  "escala (numeral k) m u =
     (if 9007199254740992 * u \<le> m then escala (pred_numeral k) m (2 * u)
      else if m < 4503599627370496 * u then escala (pred_numeral k) m (u / 2)
      else u)"
  by (simp add: numeral_eq_Suc)

lemmas arred_simps = arred64_def meio_par_def escala_numeral Let_def
  floor_rat_numeral floor_rat_neg_numeral

lemmas ar_defs = buscar_por_endereco_def buscar_id_moeda_def buscar_saldo_especifico_ar_def
  insert_saldo_on_duplicate_ar_def update_saldo_menos_ar_def realizar_deposito_ar_def
  realizar_saque_ar_def realizar_conversao_ar_def realizar_transferencia_ar_def py_not_def
  sacar_verificar_def sacar_debitar_def Let_def

text \<open>
  With arithmetic that never rounds, the operations with the arithmetic as a parameter
  are the operations defined first.
\<close>

lemma depositar_ar_exata: "depositar_ar exata s e d = depositar s e d"
  by (simp add: depositar_ar_def depositar_def ar_defs repo_defs exata_def split: option.splits)

lemma sacar_ar_exata: "sacar_ar exata env s e d = sacar env s e d"
  by (simp add: sacar_ar_def sacar_def ar_defs repo_defs exata_def split: option.splits)

lemma converter_ar_exata: "converter_ar exata env s e d = converter env s e d"
  by (simp add: converter_ar_def converter_def ar_defs repo_defs exata_def split: option.splits)

lemma transferir_ar_exata: "transferir_ar exata env s e d = transferir env s e d"
  by (simp add: transferir_ar_def transferir_def ar_defs repo_defs exata_def split: option.splits)

text \<open>The floats nearest to the decimal numbers of the examples.\<close>

lemma literais_64:
  "arred64 (1 / 100) = 5764607523034235 / 576460752303423488"
  "arred64 (2 / 100) = 5764607523034235 / 288230376151711744"
  "arred64 (9 / 10) = 8106479329266893 / 9007199254740992"
  "arred64 (101 / 100) = 4548635623644201 / 4503599627370496"
  "arred64 (10201 / 10000) = 4594121979880643 / 4503599627370496"
  "arred64 (7 / 100) = 1261007895663739 / 18014398509481984"
  "arred64 (1 / 10) = 3602879701896397 / 36028797018963968"
  "arred64 (899 / 10) = 3163075050785997 / 35184372088832"
  "arred64 (1005 / 100) = 2828823515942093 / 281474976710656"
  "arred64 (101505 / 10000) = 5714223502203027 / 562949953421312"
  by (simp_all add: arred_simps)

section \<open>Withdrawal\<close>

text \<open>
  Claim C1, as written: for every wallet, currency and amount, \<open>sacar\<close> succeeds if
  and only if the stored balance is at least amount times (1 + fee rate), and on success
  the balance decreases by exactly that much. Two inputs on which the code does
  otherwise:
  \<^item> the wallet has no balance row for the currency and the amount is -10: the
    stored balance reads 0, the check \<open>0 < -10.1\<close> is false, the movement is recorded,
    and the \<open>UPDATE\<close> of \<open>realizar_saque\<close> matches no row, so the balance stays 0
    instead of rising by 10.1;
  \<^item> in floats, a withdrawal of 1.01 at the rate 0.01 from a balance of 1.0201: the
    sum \<open>1.01 + 1.01 * 0.01\<close> rounds to the float 1.0201 and the withdrawal goes
    through, although the balance is below amount times (1 + fee rate) for the numbers
    these three floats are.
\<close>

theorem sacar_counterexample:
  "snd (sacar ambiente_exemplo db_exemplo ''W''
          \<lparr>OperacaoSaque.codigo_moeda = ''EUR'', valor = - 10, chave_privada = ''chave-w''\<rparr>)
     = Inr \<lparr>id_movimento = 1, ReciboMovimentacao.tipo = ''SAQUE'',
            ReciboMovimentacao.valor = - 10, taxa = - (1 / 10), saldo_atual = 0\<rparr>
   \<and> (- 10) * (1 + TAXA_SAQUE_PERCENTUAL ambiente_exemplo)
        \<le> buscar_saldo_especifico db_exemplo ''W'' 2
   \<and> buscar_saldo_especifico
        (fst (sacar ambiente_exemplo db_exemplo ''W''
               \<lparr>OperacaoSaque.codigo_moeda = ''EUR'', valor = - 10, chave_privada = ''chave-w''\<rparr>))
        ''W'' 2
       \<noteq> buscar_saldo_especifico db_exemplo ''W'' 2
           - (- 10) * (1 + TAXA_SAQUE_PERCENTUAL ambiente_exemplo)
   \<and> \<not> isl (snd (sacar_ar binario64 ambiente_64 (db_w_usd (arred64 (10201 / 10000))) ''W''
                 (saque_w_usd (arred64 (101 / 100)))))
   \<and> buscar_saldo_especifico_ar binario64 (db_w_usd (arred64 (10201 / 10000))) ''W'' 1
        < OperacaoSaque.valor (saque_w_usd (arred64 (101 / 100)))
          * (1 + TAXA_SAQUE_PERCENTUAL ambiente_64)"
proof -
  have a: "snd (sacar ambiente_exemplo db_exemplo ''W''
          \<lparr>OperacaoSaque.codigo_moeda = ''EUR'', valor = - 10, chave_privada = ''chave-w''\<rparr>)
     = Inr \<lparr>id_movimento = 1, ReciboMovimentacao.tipo = ''SAQUE'',
            ReciboMovimentacao.valor = - 10, taxa = - (1 / 10), saldo_atual = 0\<rparr>
   \<and> (- 10) * (1 + TAXA_SAQUE_PERCENTUAL ambiente_exemplo)
        \<le> buscar_saldo_especifico db_exemplo ''W'' 2
   \<and> buscar_saldo_especifico
        (fst (sacar ambiente_exemplo db_exemplo ''W''
               \<lparr>OperacaoSaque.codigo_moeda = ''EUR'', valor = - 10, chave_privada = ''chave-w''\<rparr>))
        ''W'' 2
       \<noteq> buscar_saldo_especifico db_exemplo ''W'' 2
           - (- 10) * (1 + TAXA_SAQUE_PERCENTUAL ambiente_exemplo)"
    by (simp add: sacar_def repo_defs ex_defs)
  have b: "\<not> isl (snd (sacar_ar binario64 ambiente_64 (db_w_usd (arred64 (10201 / 10000))) ''W''
                 (saque_w_usd (arred64 (101 / 100)))))"
    by (simp add: sacar_ar_def ar_defs ex_defs ex64_defs literais_64 arred_simps)
  have c: "buscar_saldo_especifico_ar binario64 (db_w_usd (arred64 (10201 / 10000))) ''W'' 1
        < OperacaoSaque.valor (saque_w_usd (arred64 (101 / 100)))
          * (1 + TAXA_SAQUE_PERCENTUAL ambiente_64)"
    by (simp add: ar_defs ex_defs ex64_defs arred_simps)
  from a b c show ?thesis by blast
qed

text \<open>
  Claim C1, amended: for an existing wallet whose key verifies and a currency that
  resolves, \<open>sacar\<close> succeeds if and only if the stored balance, read as a float, is at
  least the total the service computes, amount + amount * fee rate in float arithmetic
  (amount times (1 + fee rate) when nothing rounds); below that it fails with
  \<open>InsufficientFunds\<close> and the store is unchanged; on success the balance row, when
  there is one, holds what the database computes for balance - total, and there is one
  whenever the total is positive.
\<close>

theorem sacar_ar_sse_saldo_cobre_total:
  assumes "buscar_por_endereco s w = Some linha"
      and "hash_chave_privada linha = sha256_hexdigest env (OperacaoSaque.chave_privada d)"
      and "buscar_id_moeda s (OperacaoSaque.codigo_moeda d) = Some c"
      and "c \<noteq> 0"
  shows "(\<not> isl (snd (sacar_ar ar env s w d)))
           = (float_add ar (OperacaoSaque.valor d)
                (float_mul ar (OperacaoSaque.valor d) (TAXA_SAQUE_PERCENTUAL env))
                \<le> buscar_saldo_especifico_ar ar s w c)
       \<and> (buscar_saldo_especifico_ar ar s w c
             < float_add ar (OperacaoSaque.valor d)
                 (float_mul ar (OperacaoSaque.valor d) (TAXA_SAQUE_PERCENTUAL env))
           \<longrightarrow> sacar_ar ar env s w d = (s, Inl InsufficientFunds))
       \<and> (\<not> isl (snd (sacar_ar ar env s w d)) \<longrightarrow>
            saldo_carteira (fst (sacar_ar ar env s w d)) (w, c)
              = map_option
                  (\<lambda>v. sql_menos ar v
                         (float_add ar (OperacaoSaque.valor d)
                            (float_mul ar (OperacaoSaque.valor d) (TAXA_SAQUE_PERCENTUAL env))))
                  (saldo_carteira s (w, c)))
       \<and> (\<not> isl (snd (sacar_ar ar env s w d)) \<longrightarrow>
            0 < float_add ar (OperacaoSaque.valor d)
                  (float_mul ar (OperacaoSaque.valor d) (TAXA_SAQUE_PERCENTUAL env))
            \<longrightarrow> saldo_carteira s (w, c) \<noteq> None)"
  using assms
  by (auto simp add: sacar_ar_def ar_defs split: option.splits)

text \<open>
  The spec's example in exact arithmetic and in floats: 100 USD, a withdrawal of 10 at
  the default rate leaves 89.90; a withdrawal of 100 needs 101 and is refused. In floats
  a withdrawal of 10.05 from 10.1505 is refused: \<open>10.05 + 10.05 * 0.01\<close> is
  10.150500000000001.
\<close>

theorem sacar_ar_sse_saldo_cobre_total_witness:
  "sacar_ar exata ambiente_exemplo (db_w_usd 100) ''W'' (saque_w_usd 10)
     = (db_exemplo
          \<lparr>deposito_saque :=
             [\<lparr>deposito_saque_row.endereco_carteira = ''W'', id_moeda = 1,
                deposito_saque_row.tipo = ''SAQUE'', deposito_saque_row.valor = 10,
                deposito_saque_row.taxa_valor = 1 / 10\<rparr>],
           saldo_carteira := [(''W'', 1) \<mapsto> 899 / 10]\<rparr>,
        Inr \<lparr>id_movimento = 1, ReciboMovimentacao.tipo = ''SAQUE'',
              ReciboMovimentacao.valor = 10, taxa = 1 / 10, saldo_atual = 899 / 10\<rparr>)
   \<and> sacar_ar exata ambiente_exemplo (db_w_usd 100) ''W'' (saque_w_usd 100)
     = (db_w_usd 100, Inl InsufficientFunds)
   \<and> snd (sacar_ar binario64 ambiente_64 (db_w_usd 100) ''W'' (saque_w_usd 10))
     = Inr \<lparr>id_movimento = 1, ReciboMovimentacao.tipo = ''SAQUE'',
            ReciboMovimentacao.valor = 10, taxa = arred64 (1 / 10),
            saldo_atual = arred64 (899 / 10)\<rparr>
   \<and> saldo_carteira (fst (sacar_ar binario64 ambiente_64 (db_w_usd 100) ''W'' (saque_w_usd 10)))
        (''W'', 1)
     = Some (arred64 (899 / 10))
   \<and> sacar_ar binario64 ambiente_64 (db_w_usd (arred64 (101505 / 10000))) ''W''
       (saque_w_usd (arred64 (1005 / 100)))
     = (db_w_usd (arred64 (101505 / 10000)), Inl InsufficientFunds)"
proof -
  let ?linha = "\<lparr>data_criacao = 0, status = ATIVA,
                 hash_chave_privada = hash_de_exemplo ''chave-w''\<rparr>"
  have h1: "buscar_por_endereco (db_w_usd v) ''W'' = Some ?linha" for v
    by (simp add: ar_defs ex_defs ex64_defs)
  have h2: "hash_chave_privada ?linha
              = sha256_hexdigest ambiente_exemplo (OperacaoSaque.chave_privada (saque_w_usd a))"
           "hash_chave_privada ?linha
              = sha256_hexdigest ambiente_64 (OperacaoSaque.chave_privada (saque_w_usd a))" for a
    by (simp_all add: ex_defs ex64_defs)
  have h3: "buscar_id_moeda (db_w_usd v) (OperacaoSaque.codigo_moeda (saque_w_usd a)) = Some 1"
    for v a
    by (simp add: ar_defs ex_defs ex64_defs)
  have e1: "sacar_ar exata ambiente_exemplo (db_w_usd 100) ''W'' (saque_w_usd 10)
     = (db_exemplo
          \<lparr>deposito_saque :=
             [\<lparr>deposito_saque_row.endereco_carteira = ''W'', id_moeda = 1,
                deposito_saque_row.tipo = ''SAQUE'', deposito_saque_row.valor = 10,
                deposito_saque_row.taxa_valor = 1 / 10\<rparr>],
           saldo_carteira := [(''W'', 1) \<mapsto> 899 / 10]\<rparr>,
        Inr \<lparr>id_movimento = 1, ReciboMovimentacao.tipo = ''SAQUE'',
              ReciboMovimentacao.valor = 10, taxa = 1 / 10, saldo_atual = 899 / 10\<rparr>)"
    by (simp add: sacar_ar_def ar_defs ex_defs ex64_defs exata_def)
  have e2: "sacar_ar exata ambiente_exemplo (db_w_usd 100) ''W'' (saque_w_usd 100)
     = (db_w_usd 100, Inl InsufficientFunds)"
    by (simp add: sacar_ar_def ar_defs ex_defs ex64_defs exata_def)
  have e3: "sacar_ar binario64 ambiente_64 (db_w_usd 100) ''W'' (saque_w_usd 10)
     = (db_exemplo
          \<lparr>deposito_saque :=
             [\<lparr>deposito_saque_row.endereco_carteira = ''W'', id_moeda = 1,
                deposito_saque_row.tipo = ''SAQUE'', deposito_saque_row.valor = 10,
                deposito_saque_row.taxa_valor = arred64 (1 / 10)\<rparr>],
           saldo_carteira := [(''W'', 1) \<mapsto> arred64 (899 / 10)]\<rparr>,
        Inr \<lparr>id_movimento = 1, ReciboMovimentacao.tipo = ''SAQUE'',
              ReciboMovimentacao.valor = 10, taxa = arred64 (1 / 10),
              saldo_atual = arred64 (899 / 10)\<rparr>)"
    by (simp add: sacar_ar_def ar_defs ex_defs ex64_defs arred_simps)
  have e4: "sacar_ar binario64 ambiente_64 (db_w_usd (arred64 (101505 / 10000))) ''W''
       (saque_w_usd (arred64 (1005 / 100)))
     = (db_w_usd (arred64 (101505 / 10000)), Inl InsufficientFunds)"
    by (simp add: sacar_ar_def ar_defs ex_defs ex64_defs arred_simps)
  show ?thesis
    using sacar_ar_sse_saldo_cobre_total
            [OF h1 [of 100] h2(1) [of 10] h3 [of 100 10], where ar = exata]
          sacar_ar_sse_saldo_cobre_total
            [OF h1 [of "arred64 (101505 / 10000)"] h2(2) [of "arred64 (1005 / 100)"]
                h3 [of "arred64 (101505 / 10000)" "arred64 (1005 / 100)"],
             where ar = binario64]
          e1 e2 e3 e4
    by simp
qed

section \<open>Non-negative balances\<close>




section \<open>Deposit\<close>




section \<open>Conversion\<close>

text \<open>
  Claim C4, as written: for every conversion of an amount at a quoted rate, the fee is
  amount times fee rate, the source balance decreases by exactly amount times
  (1 + fee rate) and the destination balance increases by exactly amount times rate.
  Three inputs on which the code does otherwise:
  \<^item> a conversion of -50 EUR into USD by a wallet with no EUR row succeeds (the EUR
    balance reads 0 and \<open>0 < -51\<close> is false) and the \<open>UPDATE\<close> of the source matches
    no row, so the EUR balance stays 0 where the claim has it change by 51;
  \<^item> a conversion of 50 USD into USD, when the quote source answers for that pair,
    debits 51 and credits 50 on the same row, so the balance goes from 100 to 99;
  \<^item> in floats, a conversion of 0.07 at fee rate 0.02 and rate 0.9 has the fee
    0.0014000000000000002 and the amount received 0.06300000000000001, which are not
    the products of the numbers these floats are.
\<close>

theorem converter_counterexample:
  "\<not> isl (snd (converter ambiente_exemplo db_exemplo ''W''
                 \<lparr>OperacaoConversao.moeda_origem = ''EUR'', moeda_destino = ''USD'',
                    valor = - 50, chave_privada = ''chave-w''\<rparr>))
   \<and> buscar_saldo_especifico
        (fst (converter ambiente_exemplo db_exemplo ''W''
               \<lparr>OperacaoConversao.moeda_origem = ''EUR'', moeda_destino = ''USD'',
                  valor = - 50, chave_privada = ''chave-w''\<rparr>)) ''W'' 2
       \<noteq> buscar_saldo_especifico db_exemplo ''W'' 2
           - (- 50) * (1 + TAXA_CONVERSAO_PERCENTUAL ambiente_exemplo)
   \<and> \<not> isl (snd (converter ambiente_exemplo db_exemplo ''W''
                 \<lparr>OperacaoConversao.moeda_origem = ''USD'', moeda_destino = ''USD'',
                    valor = 50, chave_privada = ''chave-w''\<rparr>))
   \<and> buscar_saldo_especifico
        (fst (converter ambiente_exemplo db_exemplo ''W''
               \<lparr>OperacaoConversao.moeda_origem = ''USD'', moeda_destino = ''USD'',
                  valor = 50, chave_privada = ''chave-w''\<rparr>)) ''W'' 1
       \<noteq> buscar_saldo_especifico db_exemplo ''W'' 1
           - 50 * (1 + TAXA_CONVERSAO_PERCENTUAL ambiente_exemplo)
   \<and> snd (converter_ar binario64 ambiente_64 (db_w_usd 100) ''W''
            \<lparr>OperacaoConversao.moeda_origem = ''USD'', moeda_destino = ''EUR'',
               valor = arred64 (7 / 100), chave_privada = ''chave-w''\<rparr>)
       = Inr \<lparr>id_conversao = 1, ReciboConversao.moeda_origem = ''USD'',
              ReciboConversao.moeda_destino = ''EUR'',
              valor_convertido = arred64 (7 / 100),
              valor_recebido = 4539628424389461 / 72057594037927936,
              ReciboConversao.taxa_paga = 807045053224793 / 576460752303423488,
              cotacao = arred64 (9 / 10)\<rparr>
   \<and> (807045053224793 / 576460752303423488 :: rat)
       \<noteq> arred64 (7 / 100) * TAXA_CONVERSAO_PERCENTUAL ambiente_64
   \<and> (4539628424389461 / 72057594037927936 :: rat) \<noteq> arred64 (7 / 100) * arred64 (9 / 10)"
proof -
  have a: "\<not> isl (snd (converter ambiente_exemplo db_exemplo ''W''
                 \<lparr>OperacaoConversao.moeda_origem = ''EUR'', moeda_destino = ''USD'',
                    valor = - 50, chave_privada = ''chave-w''\<rparr>))
   \<and> buscar_saldo_especifico
        (fst (converter ambiente_exemplo db_exemplo ''W''
               \<lparr>OperacaoConversao.moeda_origem = ''EUR'', moeda_destino = ''USD'',
                  valor = - 50, chave_privada = ''chave-w''\<rparr>)) ''W'' 2
       \<noteq> buscar_saldo_especifico db_exemplo ''W'' 2
           - (- 50) * (1 + TAXA_CONVERSAO_PERCENTUAL ambiente_exemplo)
   \<and> \<not> isl (snd (converter ambiente_exemplo db_exemplo ''W''
                 \<lparr>OperacaoConversao.moeda_origem = ''USD'', moeda_destino = ''USD'',
                    valor = 50, chave_privada = ''chave-w''\<rparr>))
   \<and> buscar_saldo_especifico
        (fst (converter ambiente_exemplo db_exemplo ''W''
               \<lparr>OperacaoConversao.moeda_origem = ''USD'', moeda_destino = ''USD'',
                  valor = 50, chave_privada = ''chave-w''\<rparr>)) ''W'' 1
       \<noteq> buscar_saldo_especifico db_exemplo ''W'' 1
           - 50 * (1 + TAXA_CONVERSAO_PERCENTUAL ambiente_exemplo)"
    by (simp add: converter_def repo_defs ex_defs)
  have b: "snd (converter_ar binario64 ambiente_64 (db_w_usd 100) ''W''
            \<lparr>OperacaoConversao.moeda_origem = ''USD'', moeda_destino = ''EUR'',
               valor = arred64 (7 / 100), chave_privada = ''chave-w''\<rparr>)
       = Inr \<lparr>id_conversao = 1, ReciboConversao.moeda_origem = ''USD'',
              ReciboConversao.moeda_destino = ''EUR'',
              valor_convertido = arred64 (7 / 100),
              valor_recebido = 4539628424389461 / 72057594037927936,
              ReciboConversao.taxa_paga = 807045053224793 / 576460752303423488,
              cotacao = arred64 (9 / 10)\<rparr>"
    by (simp add: converter_ar_def ar_defs ex_defs ex64_defs arred_simps)
  have c: "(807045053224793 / 576460752303423488 :: rat)
       \<noteq> arred64 (7 / 100) * TAXA_CONVERSAO_PERCENTUAL ambiente_64"
          "(4539628424389461 / 72057594037927936 :: rat) \<noteq> arred64 (7 / 100) * arred64 (9 / 10)"
    by (simp_all add: ex64_defs arred_simps)
  from a b c show ?thesis by blast
qed

text \<open>
  Claim C4, amended: for every successful conversion between two currencies of different
  ids at quoted rate r, the fee on the receipt is the float product amount * fee rate and
  the amount received the float product amount * r; the source balance row, which exists
  whenever the total is positive, holds what the database computes for balance - total,
  the total being the float sum amount + fee; the destination row holds what it computes
  for balance + amount received (the amount received itself when the row is new). When
  nothing rounds these are amount times fee rate, amount times (1 + fee rate) and amount
  times r.
\<close>

theorem converter_ar_valores:
  assumes "snd (converter_ar ar env s w d) = Inr recibo"
      and "buscar_id_moeda s (OperacaoConversao.moeda_origem d) = Some ido"
      and "buscar_id_moeda s (OperacaoConversao.moeda_destino d) = Some idd"
      and "ido \<noteq> idd"
      and "coinbase_spot env (OperacaoConversao.moeda_origem d)
             (OperacaoConversao.moeda_destino d) = Some r"
  shows "ReciboConversao.taxa_paga recibo
           = float_mul ar (OperacaoConversao.valor d) (TAXA_CONVERSAO_PERCENTUAL env)
       \<and> valor_recebido recibo = float_mul ar (OperacaoConversao.valor d) r
       \<and> cotacao recibo = r
       \<and> saldo_carteira (fst (converter_ar ar env s w d)) (w, ido)
           = map_option
               (\<lambda>v. sql_menos ar v
                      (float_add ar (OperacaoConversao.valor d)
                         (float_mul ar (OperacaoConversao.valor d)
                            (TAXA_CONVERSAO_PERCENTUAL env))))
               (saldo_carteira s (w, ido))
       \<and> saldo_carteira (fst (converter_ar ar env s w d)) (w, idd)
           = Some (case saldo_carteira s (w, idd) of
                     None \<Rightarrow> sql_valor ar (float_mul ar (OperacaoConversao.valor d) r)
                   | Some u \<Rightarrow> sql_mais ar u (float_mul ar (OperacaoConversao.valor d) r))
       \<and> (0 < float_add ar (OperacaoConversao.valor d)
                 (float_mul ar (OperacaoConversao.valor d) (TAXA_CONVERSAO_PERCENTUAL env))
            \<longrightarrow> saldo_carteira s (w, ido) \<noteq> None)"
  using assms
  by (auto simp add: converter_ar_def ar_defs split: option.splits if_splits)

text \<open>
  The spec's example, in exact arithmetic and in floats: 50 USD into EUR at rate 0.9 and
  fee rate 0.02 gives fee 1, a debit of 51 and a credit of 45.
\<close>

theorem converter_ar_valores_witness:
  "converter_ar exata ambiente_exemplo (db_w_usd 100) ''W''
     \<lparr>OperacaoConversao.moeda_origem = ''USD'', moeda_destino = ''EUR'',
        valor = 50, chave_privada = ''chave-w''\<rparr>
     = (db_exemplo
          \<lparr>conversao :=
             [\<lparr>conversao_row.endereco_carteira = ''W'', id_moeda_origem = 1,
                id_moeda_destino = 2, valor_origem = 50, valor_destino = 45,
                taxa_percentual = 1 / 50, conversao_row.taxa_valor = 1,
                cotacao_utilizada = 9 / 10\<rparr>],
           saldo_carteira := [(''W'', 1) \<mapsto> 49, (''W'', 2) \<mapsto> 45]\<rparr>,
        Inr \<lparr>id_conversao = 1, ReciboConversao.moeda_origem = ''USD'',
              ReciboConversao.moeda_destino = ''EUR'', valor_convertido = 50,
              valor_recebido = 45, ReciboConversao.taxa_paga = 1, cotacao = 9 / 10\<rparr>)
   \<and> converter_ar binario64 ambiente_64 (db_w_usd 100) ''W''
     \<lparr>OperacaoConversao.moeda_origem = ''USD'', moeda_destino = ''EUR'',
        valor = 50, chave_privada = ''chave-w''\<rparr>
     = (db_exemplo
          \<lparr>conversao :=
             [\<lparr>conversao_row.endereco_carteira = ''W'', id_moeda_origem = 1,
                id_moeda_destino = 2, valor_origem = 50, valor_destino = 45,
                taxa_percentual = arred64 (1 / 50), conversao_row.taxa_valor = 1,
                cotacao_utilizada = arred64 (9 / 10)\<rparr>],
           saldo_carteira := [(''W'', 1) \<mapsto> 49, (''W'', 2) \<mapsto> 45]\<rparr>,
        Inr \<lparr>id_conversao = 1, ReciboConversao.moeda_origem = ''USD'',
              ReciboConversao.moeda_destino = ''EUR'', valor_convertido = 50,
              valor_recebido = 45, ReciboConversao.taxa_paga = 1,
              cotacao = arred64 (9 / 10)\<rparr>)"
proof -
  let ?d = "\<lparr>OperacaoConversao.moeda_origem = ''USD'', moeda_destino = ''EUR'',
              valor = 50, chave_privada = ''chave-w''\<rparr>"
  have e1: "converter_ar exata ambiente_exemplo (db_w_usd 100) ''W'' ?d
     = (db_exemplo
          \<lparr>conversao :=
             [\<lparr>conversao_row.endereco_carteira = ''W'', id_moeda_origem = 1,
                id_moeda_destino = 2, valor_origem = 50, valor_destino = 45,
                taxa_percentual = 1 / 50, conversao_row.taxa_valor = 1,
                cotacao_utilizada = 9 / 10\<rparr>],
           saldo_carteira := [(''W'', 1) \<mapsto> 49, (''W'', 2) \<mapsto> 45]\<rparr>,
        Inr \<lparr>id_conversao = 1, ReciboConversao.moeda_origem = ''USD'',
              ReciboConversao.moeda_destino = ''EUR'', valor_convertido = 50,
              valor_recebido = 45, ReciboConversao.taxa_paga = 1, cotacao = 9 / 10\<rparr>)"
    by (simp add: converter_ar_def ar_defs ex_defs ex64_defs exata_def)
  have e2: "converter_ar binario64 ambiente_64 (db_w_usd 100) ''W'' ?d
     = (db_exemplo
          \<lparr>conversao :=
             [\<lparr>conversao_row.endereco_carteira = ''W'', id_moeda_origem = 1,
                id_moeda_destino = 2, valor_origem = 50, valor_destino = 45,
                taxa_percentual = arred64 (1 / 50), conversao_row.taxa_valor = 1,
                cotacao_utilizada = arred64 (9 / 10)\<rparr>],
           saldo_carteira := [(''W'', 1) \<mapsto> 49, (''W'', 2) \<mapsto> 45]\<rparr>,
        Inr \<lparr>id_conversao = 1, ReciboConversao.moeda_origem = ''USD'',
              ReciboConversao.moeda_destino = ''EUR'', valor_convertido = 50,
              valor_recebido = 45, ReciboConversao.taxa_paga = 1,
              cotacao = arred64 (9 / 10)\<rparr>)"
    by (simp add: converter_ar_def ar_defs ex_defs ex64_defs arred_simps)
  have h1: "buscar_id_moeda (db_w_usd 100) (OperacaoConversao.moeda_origem ?d) = Some 1"
           "buscar_id_moeda (db_w_usd 100) (OperacaoConversao.moeda_destino ?d) = Some 2"
    by (simp_all add: ar_defs ex_defs ex64_defs)
  have h2: "coinbase_spot ambiente_exemplo (OperacaoConversao.moeda_origem ?d)
              (OperacaoConversao.moeda_destino ?d) = Some (9 / 10)"
    by (simp add: ex_defs)
  have h3: "(1::int) \<noteq> 2" by simp
  have r1: "snd (converter_ar exata ambiente_exemplo (db_w_usd 100) ''W'' ?d)
     = Inr \<lparr>id_conversao = 1, ReciboConversao.moeda_origem = ''USD'',
              ReciboConversao.moeda_destino = ''EUR'', valor_convertido = 50,
              valor_recebido = 45, ReciboConversao.taxa_paga = 1, cotacao = 9 / 10\<rparr>"
    by (simp add: e1)
  show ?thesis
    using converter_ar_valores [OF r1 h1 h3 h2] e1 e2
    by simp
qed

section \<open>Transfer\<close>

text \<open>
  Claim C5: a transfer whose destination address is its source address fails with
  \<open>InvalidOperation\<close> whatever the balances, and changes nothing in the store; the check
  comes after the source wallet is found and its key verified, so an unknown source gives
  \<open>NotFound\<close> and a wrong key \<open>Unauthorized\<close>.
\<close>

theorem transferir_para_a_propria_carteira:
  assumes "OperacaoTransferencia.endereco_destino d = w"
  shows "transferir env s w d =
           (s, Inl (case buscar_por_endereco s w of
                      None \<Rightarrow> NotFound
                    | Some origem_row \<Rightarrow>
                        if hash_chave_privada origem_row
                             = sha256_hexdigest env (OperacaoTransferencia.chave_privada d)
                        then InvalidOperation else Unauthorized))"
  using assms
  by (simp add: transferir_def split: option.splits)

text \<open>With 100 USD on the source and with no balance at all.\<close>

theorem transferir_para_a_propria_carteira_witness:
  "transferir ambiente_exemplo db_exemplo ''W''
     \<lparr>OperacaoTransferencia.endereco_destino = ''W'', codigo_moeda = ''USD'',
        valor = 10, chave_privada = ''chave-w''\<rparr>
     = (db_exemplo, Inl InvalidOperation)
   \<and> transferir ambiente_exemplo db_exemplo ''B''
     \<lparr>OperacaoTransferencia.endereco_destino = ''B'', codigo_moeda = ''USD'',
        valor = 10, chave_privada = ''chave-b''\<rparr>
     = (db_exemplo, Inl InvalidOperation)"
  using transferir_para_a_propria_carteira
          [of "\<lparr>OperacaoTransferencia.endereco_destino = ''W'', codigo_moeda = ''USD'',
                 valor = 10, chave_privada = ''chave-w''\<rparr>" "''W''" ambiente_exemplo db_exemplo]
        transferir_para_a_propria_carteira
          [of "\<lparr>OperacaoTransferencia.endereco_destino = ''B'', codigo_moeda = ''USD'',
                 valor = 10, chave_privada = ''chave-b''\<rparr>" "''B''" ambiente_exemplo db_exemplo]
  by (simp add: repo_defs ex_defs)

text \<open>
  Claim C6, as written: every transfer whose destination wallet exists and is blocked
  fails with \<open>DestinationBlocked\<close>. The destination status is the fifth check of
  \<open>transferir\<close>: with the blocked wallet \<open>B\<close> as destination, a wrong key for the
  source gives \<open>Unauthorized\<close>, \<open>B\<close> sending to itself gives \<open>InvalidOperation\<close>,
  and an unknown source gives \<open>NotFound\<close>.
\<close>

theorem transferir_destino_bloqueado_counterexample:
  "map_option status
     (buscar_por_endereco db_exemplo
        (OperacaoTransferencia.endereco_destino
           \<lparr>OperacaoTransferencia.endereco_destino = ''B'', codigo_moeda = ''USD'',
              valor = 10, chave_privada = ''outra-chave''\<rparr>)) = Some BLOQUEADA
   \<and> snd (transferir ambiente_exemplo db_exemplo ''W''
            \<lparr>OperacaoTransferencia.endereco_destino = ''B'', codigo_moeda = ''USD'',
               valor = 10, chave_privada = ''outra-chave''\<rparr>) = Inl Unauthorized
   \<and> snd (transferir ambiente_exemplo db_exemplo ''B''
            \<lparr>OperacaoTransferencia.endereco_destino = ''B'', codigo_moeda = ''USD'',
               valor = 10, chave_privada = ''chave-b''\<rparr>) = Inl InvalidOperation
   \<and> snd (transferir ambiente_exemplo db_exemplo ''X''
            \<lparr>OperacaoTransferencia.endereco_destino = ''B'', codigo_moeda = ''USD'',
               valor = 10, chave_privada = ''chave-x''\<rparr>) = Inl NotFound"
  by (simp add: transferir_def repo_defs ex_defs)

text \<open>
  Claim C6, amended: a transfer whose destination wallet exists and is blocked always
  fails and changes nothing in the store, whatever the source balance. The error is
  \<open>DestinationBlocked\<close> when the source wallet exists, its key verifies and the source
  is not the destination; otherwise it is the error of the earlier check that failed.
\<close>

theorem transferir_destino_bloqueado:
  assumes "buscar_por_endereco s (OperacaoTransferencia.endereco_destino d) = Some destino_row"
      and "status destino_row = BLOQUEADA"
  shows "transferir env s w d =
           (s, Inl (case buscar_por_endereco s w of
                      None \<Rightarrow> NotFound
                    | Some origem_row \<Rightarrow>
                        if hash_chave_privada origem_row
                             \<noteq> sha256_hexdigest env (OperacaoTransferencia.chave_privada d)
                        then Unauthorized
                        else if w = OperacaoTransferencia.endereco_destino d
                        then InvalidOperation
                        else DestinationBlocked))"
  using assms
  by (simp add: transferir_def split: option.splits)

text \<open>The source holds 100 USD, the transfer of 10 needs 10.10, and it is refused.\<close>

theorem transferir_destino_bloqueado_witness:
  "buscar_saldo_especifico db_exemplo ''W'' 1 = 100
   \<and> transferir ambiente_exemplo db_exemplo ''W''
       \<lparr>OperacaoTransferencia.endereco_destino = ''B'', codigo_moeda = ''USD'',
          valor = 10, chave_privada = ''chave-w''\<rparr>
     = (db_exemplo, Inl DestinationBlocked)"
  using transferir_destino_bloqueado
          [of db_exemplo
              "\<lparr>OperacaoTransferencia.endereco_destino = ''B'', codigo_moeda = ''USD'',
                 valor = 10, chave_privada = ''chave-w''\<rparr>"
              "\<lparr>data_criacao = 1, status = BLOQUEADA,
                 hash_chave_privada = hash_de_exemplo ''chave-b''\<rparr>"
              ambiente_exemplo "''W''"]
  by (simp add: repo_defs ex_defs)

section \<open>Blocked wallets\<close>

text \<open>
  Claim C7: a blocked wallet can still deposit, withdraw, convert and be the source of a
  transfer. For a wallet whose status is \<open>BLOQUEADA\<close>, when the checks the code does
  make pass (the key, the currency or currencies, the quote for a conversion, the
  destination of a transfer being another wallet, found and active, and the balance
  covering amount plus fee), each of the four operations returns its receipt and leaves
  exactly the store of a successful operation: the ledger row appended, the source
  balance debited, the destination balance credited. And for every input the outcome of
  each operation is the one it has when the same wallet is active: the status of the
  acting wallet is never read.
\<close>

theorem carteira_bloqueada_mesmo_efeito:
  assumes "buscar_por_endereco s w = Some linha"
      and "status linha = BLOQUEADA"
  shows "(buscar_id_moeda s (OperacaoDeposito.codigo_moeda dd) = Some ca \<and> ca \<noteq> 0 \<longrightarrow>
            depositar_ar ar s w dd
              = (s\<lparr>deposito_saque :=
                     deposito_saque s
                     @ [\<lparr>deposito_saque_row.endereco_carteira = w, id_moeda = ca,
                          deposito_saque_row.tipo = ''DEPOSITO'',
                          deposito_saque_row.valor = OperacaoDeposito.valor dd,
                          deposito_saque_row.taxa_valor = 0\<rparr>],
                   saldo_carteira :=
                     (saldo_carteira s)
                       ((w, ca) \<mapsto>
                          (case saldo_carteira s (w, ca) of
                             None \<Rightarrow> sql_valor ar (OperacaoDeposito.valor dd)
                           | Some x \<Rightarrow> sql_mais ar x (OperacaoDeposito.valor dd)))\<rparr>,
                 Inr \<lparr>id_movimento = int (length (deposito_saque s)) + 1,
                       ReciboMovimentacao.tipo = ''DEPOSITO'',
                       ReciboMovimentacao.valor = OperacaoDeposito.valor dd,
                       taxa = 0,
                       saldo_atual =
                         float_de_saldo ar
                           (case saldo_carteira s (w, ca) of
                              None \<Rightarrow> sql_valor ar (OperacaoDeposito.valor dd)
                            | Some x \<Rightarrow> sql_mais ar x (OperacaoDeposito.valor dd))\<rparr>))
       \<and> (hash_chave_privada linha = sha256_hexdigest env (OperacaoSaque.chave_privada ds)
            \<and> buscar_id_moeda s (OperacaoSaque.codigo_moeda ds) = Some cb \<and> cb \<noteq> 0
            \<and> saldo_carteira s (w, cb) = Some vb
            \<and> \<not> float_de_saldo ar vb
                   < float_add ar (OperacaoSaque.valor ds)
                       (float_mul ar (OperacaoSaque.valor ds) (TAXA_SAQUE_PERCENTUAL env))
          \<longrightarrow>
            sacar_ar ar env s w ds
              = (s\<lparr>deposito_saque :=
                     deposito_saque s
                     @ [\<lparr>deposito_saque_row.endereco_carteira = w, id_moeda = cb,
                          deposito_saque_row.tipo = ''SAQUE'',
                          deposito_saque_row.valor = OperacaoSaque.valor ds,
                          deposito_saque_row.taxa_valor =
                            float_mul ar (OperacaoSaque.valor ds) (TAXA_SAQUE_PERCENTUAL env)\<rparr>],
                   saldo_carteira :=
                     (saldo_carteira s)
                       ((w, cb) \<mapsto>
                          sql_menos ar vb
                            (float_add ar (OperacaoSaque.valor ds)
                               (float_mul ar (OperacaoSaque.valor ds)
                                  (TAXA_SAQUE_PERCENTUAL env))))\<rparr>,
                 Inr \<lparr>id_movimento = int (length (deposito_saque s)) + 1,
                       ReciboMovimentacao.tipo = ''SAQUE'',
                       ReciboMovimentacao.valor = OperacaoSaque.valor ds,
                       taxa = float_mul ar (OperacaoSaque.valor ds) (TAXA_SAQUE_PERCENTUAL env),
                       saldo_atual =
                         float_de_saldo ar
                           (sql_menos ar vb
                              (float_add ar (OperacaoSaque.valor ds)
                                 (float_mul ar (OperacaoSaque.valor ds)
                                    (TAXA_SAQUE_PERCENTUAL env))))\<rparr>))
       \<and> (hash_chave_privada linha = sha256_hexdigest env (OperacaoConversao.chave_privada dc)
            \<and> buscar_id_moeda s (OperacaoConversao.moeda_origem dc) = Some cc \<and> cc \<noteq> 0
            \<and> buscar_id_moeda s (OperacaoConversao.moeda_destino dc) = Some cd \<and> cd \<noteq> 0
            \<and> cc \<noteq> cd
            \<and> coinbase_spot env (OperacaoConversao.moeda_origem dc)
                 (OperacaoConversao.moeda_destino dc) = Some r
            \<and> saldo_carteira s (w, cc) = Some vc
            \<and> \<not> float_de_saldo ar vc
                   < float_add ar (OperacaoConversao.valor dc)
                       (float_mul ar (OperacaoConversao.valor dc) (TAXA_CONVERSAO_PERCENTUAL env))
          \<longrightarrow>
            converter_ar ar env s w dc
              = (s\<lparr>conversao :=
                     conversao s
                     @ [\<lparr>conversao_row.endereco_carteira = w, id_moeda_origem = cc,
                          id_moeda_destino = cd,
                          valor_origem = OperacaoConversao.valor dc,
                          valor_destino = float_mul ar (OperacaoConversao.valor dc) r,
                          taxa_percentual = TAXA_CONVERSAO_PERCENTUAL env,
                          conversao_row.taxa_valor =
                            float_mul ar (OperacaoConversao.valor dc)
                              (TAXA_CONVERSAO_PERCENTUAL env),
                          cotacao_utilizada = r\<rparr>],
                   saldo_carteira :=
                     (saldo_carteira s)
                       ((w, cc) \<mapsto>
                          sql_menos ar vc
                            (float_add ar (OperacaoConversao.valor dc)
                               (float_mul ar (OperacaoConversao.valor dc)
                                  (TAXA_CONVERSAO_PERCENTUAL env))),
                        (w, cd) \<mapsto>
                          (case saldo_carteira s (w, cd) of
                             None \<Rightarrow> sql_valor ar (float_mul ar (OperacaoConversao.valor dc) r)
                           | Some x \<Rightarrow>
                               sql_mais ar x (float_mul ar (OperacaoConversao.valor dc) r)))\<rparr>,
                 Inr \<lparr>id_conversao = int (length (conversao s)) + 1,
                       ReciboConversao.moeda_origem = OperacaoConversao.moeda_origem dc,
                       ReciboConversao.moeda_destino = OperacaoConversao.moeda_destino dc,
                       valor_convertido = OperacaoConversao.valor dc,
                       valor_recebido = float_mul ar (OperacaoConversao.valor dc) r,
                       ReciboConversao.taxa_paga =
                         float_mul ar (OperacaoConversao.valor dc)
                           (TAXA_CONVERSAO_PERCENTUAL env),
                       cotacao = r\<rparr>))
       \<and> (hash_chave_privada linha
              = sha256_hexdigest env (OperacaoTransferencia.chave_privada dt)
            \<and> w \<noteq> OperacaoTransferencia.endereco_destino dt
            \<and> buscar_por_endereco s (OperacaoTransferencia.endereco_destino dt) = Some destino
            \<and> status destino = ATIVA
            \<and> buscar_id_moeda s (OperacaoTransferencia.codigo_moeda dt) = Some ce \<and> ce \<noteq> 0
            \<and> saldo_carteira s (w, ce) = Some ve
            \<and> \<not> float_de_saldo ar ve
                   < float_add ar (OperacaoTransferencia.valor dt)
                       (float_mul ar (OperacaoTransferencia.valor dt)
                          (TAXA_TRANSFERENCIA_PERCENTUAL env))
          \<longrightarrow>
            transferir_ar ar env s w dt
              = (s\<lparr>transferencia :=
                     transferencia s
                     @ [\<lparr>transferencia_row.endereco_origem = w,
                          transferencia_row.endereco_destino =
                            OperacaoTransferencia.endereco_destino dt,
                          transferencia_row.id_moeda = ce,
                          transferencia_row.valor = OperacaoTransferencia.valor dt,
                          transferencia_row.taxa_valor =
                            float_mul ar (OperacaoTransferencia.valor dt)
                              (TAXA_TRANSFERENCIA_PERCENTUAL env)\<rparr>],
                   saldo_carteira :=
                     (saldo_carteira s)
                       ((w, ce) \<mapsto>
                          sql_menos ar ve
                            (float_add ar (OperacaoTransferencia.valor dt)
                               (float_mul ar (OperacaoTransferencia.valor dt)
                                  (TAXA_TRANSFERENCIA_PERCENTUAL env))),
                        (OperacaoTransferencia.endereco_destino dt, ce) \<mapsto>
                          (case saldo_carteira s (OperacaoTransferencia.endereco_destino dt, ce) of
                             None \<Rightarrow> sql_valor ar (OperacaoTransferencia.valor dt)
                           | Some x \<Rightarrow> sql_mais ar x (OperacaoTransferencia.valor dt)))\<rparr>,
                 Inr \<lparr>id_transferencia = int (length (transferencia s)) + 1,
                       ReciboTransferencia.endereco_origem = w,
                       ReciboTransferencia.endereco_destino =
                         OperacaoTransferencia.endereco_destino dt,
                       moeda = OperacaoTransferencia.codigo_moeda dt,
                       valor_transferido = OperacaoTransferencia.valor dt,
                       ReciboTransferencia.taxa_paga =
                         float_mul ar (OperacaoTransferencia.valor dt)
                           (TAXA_TRANSFERENCIA_PERCENTUAL env)\<rparr>))
       \<and> depositar_ar ar (s\<lparr>carteira := (carteira s)(w \<mapsto> linha\<lparr>status := ATIVA\<rparr>)\<rparr>) w dd
           = ((fst (depositar_ar ar s w dd))
                \<lparr>carteira := (carteira s)(w \<mapsto> linha\<lparr>status := ATIVA\<rparr>)\<rparr>,
              snd (depositar_ar ar s w dd))
       \<and> sacar_ar ar env (s\<lparr>carteira := (carteira s)(w \<mapsto> linha\<lparr>status := ATIVA\<rparr>)\<rparr>) w ds
           = ((fst (sacar_ar ar env s w ds))
                \<lparr>carteira := (carteira s)(w \<mapsto> linha\<lparr>status := ATIVA\<rparr>)\<rparr>,
              snd (sacar_ar ar env s w ds))
       \<and> converter_ar ar env (s\<lparr>carteira := (carteira s)(w \<mapsto> linha\<lparr>status := ATIVA\<rparr>)\<rparr>) w dc
           = ((fst (converter_ar ar env s w dc))
                \<lparr>carteira := (carteira s)(w \<mapsto> linha\<lparr>status := ATIVA\<rparr>)\<rparr>,
              snd (converter_ar ar env s w dc))
       \<and> transferir_ar ar env (s\<lparr>carteira := (carteira s)(w \<mapsto> linha\<lparr>status := ATIVA\<rparr>)\<rparr>) w dt
           = ((fst (transferir_ar ar env s w dt))
                \<lparr>carteira := (carteira s)(w \<mapsto> linha\<lparr>status := ATIVA\<rparr>)\<rparr>,
              snd (transferir_ar ar env s w dt))"
proof (intro conjI impI)
  assume "buscar_id_moeda s (OperacaoDeposito.codigo_moeda dd) = Some ca \<and> ca \<noteq> 0"
  then show "depositar_ar ar s w dd
              = (s\<lparr>deposito_saque :=
                     deposito_saque s
                     @ [\<lparr>deposito_saque_row.endereco_carteira = w, id_moeda = ca,
                          deposito_saque_row.tipo = ''DEPOSITO'',
                          deposito_saque_row.valor = OperacaoDeposito.valor dd,
                          deposito_saque_row.taxa_valor = 0\<rparr>],
                   saldo_carteira :=
                     (saldo_carteira s)
                       ((w, ca) \<mapsto>
                          (case saldo_carteira s (w, ca) of
                             None \<Rightarrow> sql_valor ar (OperacaoDeposito.valor dd)
                           | Some x \<Rightarrow> sql_mais ar x (OperacaoDeposito.valor dd)))\<rparr>,
                 Inr \<lparr>id_movimento = int (length (deposito_saque s)) + 1,
                       ReciboMovimentacao.tipo = ''DEPOSITO'',
                       ReciboMovimentacao.valor = OperacaoDeposito.valor dd,
                       taxa = 0,
                       saldo_atual =
                         float_de_saldo ar
                           (case saldo_carteira s (w, ca) of
                              None \<Rightarrow> sql_valor ar (OperacaoDeposito.valor dd)
                            | Some x \<Rightarrow> sql_mais ar x (OperacaoDeposito.valor dd))\<rparr>)"
    by (simp add: depositar_ar_def ar_defs)
next
  show "depositar_ar ar (s\<lparr>carteira := (carteira s)(w \<mapsto> linha\<lparr>status := ATIVA\<rparr>)\<rparr>) w dd
           = ((fst (depositar_ar ar s w dd))
                \<lparr>carteira := (carteira s)(w \<mapsto> linha\<lparr>status := ATIVA\<rparr>)\<rparr>,
              snd (depositar_ar ar s w dd))"
    by (simp add: depositar_ar_def ar_defs split: option.splits)
next
  show "sacar_ar ar env (s\<lparr>carteira := (carteira s)(w \<mapsto> linha\<lparr>status := ATIVA\<rparr>)\<rparr>) w ds
           = ((fst (sacar_ar ar env s w ds))
                \<lparr>carteira := (carteira s)(w \<mapsto> linha\<lparr>status := ATIVA\<rparr>)\<rparr>,
              snd (sacar_ar ar env s w ds))"
    using assms by (simp add: sacar_ar_def ar_defs split: option.splits)
next
  show "converter_ar ar env (s\<lparr>carteira := (carteira s)(w \<mapsto> linha\<lparr>status := ATIVA\<rparr>)\<rparr>) w dc
           = ((fst (converter_ar ar env s w dc))
                \<lparr>carteira := (carteira s)(w \<mapsto> linha\<lparr>status := ATIVA\<rparr>)\<rparr>,
              snd (converter_ar ar env s w dc))"
    using assms by (simp add: converter_ar_def ar_defs split: option.splits)
next
  show "transferir_ar ar env (s\<lparr>carteira := (carteira s)(w \<mapsto> linha\<lparr>status := ATIVA\<rparr>)\<rparr>) w dt
           = ((fst (transferir_ar ar env s w dt))
                \<lparr>carteira := (carteira s)(w \<mapsto> linha\<lparr>status := ATIVA\<rparr>)\<rparr>,
              snd (transferir_ar ar env s w dt))"
    using assms by (simp add: transferir_ar_def ar_defs split: option.splits)
qed (use assms in \<open>auto simp add: sacar_ar_def converter_ar_def transferir_ar_def ar_defs\<close>)

text \<open>
  The blocked wallet \<open>B\<close>, holding 100 USD: a deposit of 5 EUR, a withdrawal of 10 USD,
  a conversion of 50 USD into EUR and a transfer of 10 USD to the active wallet \<open>W\<close>.
\<close>

theorem carteira_bloqueada_mesmo_efeito_witness:
  "map_option status (buscar_por_endereco db_exemplo_b ''B'') = Some BLOQUEADA
   \<and> saldo_carteira db_exemplo_b (''B'', 1) = Some 100
   \<and> snd (depositar_ar exata db_exemplo_b ''B''
            \<lparr>OperacaoDeposito.codigo_moeda = ''EUR'', valor = 5\<rparr>)
       = Inr \<lparr>id_movimento = 2, ReciboMovimentacao.tipo = ''DEPOSITO'',
              ReciboMovimentacao.valor = 5, taxa = 0, saldo_atual = 5\<rparr>
   \<and> saldo_carteira
        (fst (depositar_ar exata db_exemplo_b ''B''
               \<lparr>OperacaoDeposito.codigo_moeda = ''EUR'', valor = 5\<rparr>)) (''B'', 2) = Some 5
   \<and> snd (sacar_ar exata ambiente_exemplo db_exemplo_b ''B''
            \<lparr>OperacaoSaque.codigo_moeda = ''USD'', valor = 10, chave_privada = ''chave-b''\<rparr>)
       = Inr \<lparr>id_movimento = 2, ReciboMovimentacao.tipo = ''SAQUE'',
              ReciboMovimentacao.valor = 10, taxa = 1 / 10, saldo_atual = 899 / 10\<rparr>
   \<and> saldo_carteira
        (fst (sacar_ar exata ambiente_exemplo db_exemplo_b ''B''
               \<lparr>OperacaoSaque.codigo_moeda = ''USD'', valor = 10,
                  chave_privada = ''chave-b''\<rparr>)) (''B'', 1) = Some (899 / 10)
   \<and> length (deposito_saque
        (fst (sacar_ar exata ambiente_exemplo db_exemplo_b ''B''
               \<lparr>OperacaoSaque.codigo_moeda = ''USD'', valor = 10,
                  chave_privada = ''chave-b''\<rparr>))) = 2
   \<and> snd (converter_ar exata ambiente_exemplo db_exemplo_b ''B''
            \<lparr>OperacaoConversao.moeda_origem = ''USD'', moeda_destino = ''EUR'',
               valor = 50, chave_privada = ''chave-b''\<rparr>)
       = Inr \<lparr>id_conversao = 1, ReciboConversao.moeda_origem = ''USD'',
              ReciboConversao.moeda_destino = ''EUR'', valor_convertido = 50,
              valor_recebido = 45, ReciboConversao.taxa_paga = 1, cotacao = 9 / 10\<rparr>
   \<and> saldo_carteira
        (fst (converter_ar exata ambiente_exemplo db_exemplo_b ''B''
               \<lparr>OperacaoConversao.moeda_origem = ''USD'', moeda_destino = ''EUR'',
                  valor = 50, chave_privada = ''chave-b''\<rparr>)) (''B'', 1) = Some 49
   \<and> saldo_carteira
        (fst (converter_ar exata ambiente_exemplo db_exemplo_b ''B''
               \<lparr>OperacaoConversao.moeda_origem = ''USD'', moeda_destino = ''EUR'',
                  valor = 50, chave_privada = ''chave-b''\<rparr>)) (''B'', 2) = Some 45
   \<and> snd (transferir_ar exata ambiente_exemplo db_exemplo_b ''B''
            \<lparr>OperacaoTransferencia.endereco_destino = ''W'', codigo_moeda = ''USD'',
               valor = 10, chave_privada = ''chave-b''\<rparr>)
       = Inr \<lparr>id_transferencia = 1, ReciboTransferencia.endereco_origem = ''B'',
              ReciboTransferencia.endereco_destino = ''W'', moeda = ''USD'',
              valor_transferido = 10, ReciboTransferencia.taxa_paga = 1 / 10\<rparr>
   \<and> saldo_carteira
        (fst (transferir_ar exata ambiente_exemplo db_exemplo_b ''B''
               \<lparr>OperacaoTransferencia.endereco_destino = ''W'', codigo_moeda = ''USD'',
                  valor = 10, chave_privada = ''chave-b''\<rparr>)) (''B'', 1) = Some (899 / 10)
   \<and> saldo_carteira
        (fst (transferir_ar exata ambiente_exemplo db_exemplo_b ''B''
               \<lparr>OperacaoTransferencia.endereco_destino = ''W'', codigo_moeda = ''USD'',
                  valor = 10, chave_privada = ''chave-b''\<rparr>)) (''W'', 1) = Some 110"
proof -
  let ?linha = "\<lparr>data_criacao = 1, status = BLOQUEADA,
                 hash_chave_privada = hash_de_exemplo ''chave-b''\<rparr>"
  have h1: "buscar_por_endereco db_exemplo_b ''B'' = Some ?linha"
    by (simp add: db_exemplo_b_def depositar_def repo_defs ex_defs)
  have h2: "status ?linha = BLOQUEADA"
    by simp
  have b0: "saldo_carteira db_exemplo_b (''B'', 1) = Some 100"
    by (simp add: db_exemplo_b_def depositar_def repo_defs ex_defs)
  have e1: "snd (depositar_ar exata db_exemplo_b ''B''
            \<lparr>OperacaoDeposito.codigo_moeda = ''EUR'', valor = 5\<rparr>)
       = Inr \<lparr>id_movimento = 2, ReciboMovimentacao.tipo = ''DEPOSITO'',
              ReciboMovimentacao.valor = 5, taxa = 0, saldo_atual = 5\<rparr>
     \<and> saldo_carteira
        (fst (depositar_ar exata db_exemplo_b ''B''
               \<lparr>OperacaoDeposito.codigo_moeda = ''EUR'', valor = 5\<rparr>)) (''B'', 2) = Some 5"
    by (simp add: depositar_ar_def ar_defs exata_def db_exemplo_b_def depositar_def repo_defs
        ex_defs)
  have e2: "snd (sacar_ar exata ambiente_exemplo db_exemplo_b ''B''
            \<lparr>OperacaoSaque.codigo_moeda = ''USD'', valor = 10, chave_privada = ''chave-b''\<rparr>)
       = Inr \<lparr>id_movimento = 2, ReciboMovimentacao.tipo = ''SAQUE'',
              ReciboMovimentacao.valor = 10, taxa = 1 / 10, saldo_atual = 899 / 10\<rparr>
     \<and> saldo_carteira
        (fst (sacar_ar exata ambiente_exemplo db_exemplo_b ''B''
               \<lparr>OperacaoSaque.codigo_moeda = ''USD'', valor = 10,
                  chave_privada = ''chave-b''\<rparr>)) (''B'', 1) = Some (899 / 10)
     \<and> length (deposito_saque
        (fst (sacar_ar exata ambiente_exemplo db_exemplo_b ''B''
               \<lparr>OperacaoSaque.codigo_moeda = ''USD'', valor = 10,
                  chave_privada = ''chave-b''\<rparr>))) = 2"
    by (simp add: sacar_ar_def ar_defs exata_def db_exemplo_b_def depositar_def repo_defs ex_defs)
  have e3: "snd (converter_ar exata ambiente_exemplo db_exemplo_b ''B''
            \<lparr>OperacaoConversao.moeda_origem = ''USD'', moeda_destino = ''EUR'',
               valor = 50, chave_privada = ''chave-b''\<rparr>)
       = Inr \<lparr>id_conversao = 1, ReciboConversao.moeda_origem = ''USD'',
              ReciboConversao.moeda_destino = ''EUR'', valor_convertido = 50,
              valor_recebido = 45, ReciboConversao.taxa_paga = 1, cotacao = 9 / 10\<rparr>
     \<and> saldo_carteira
        (fst (converter_ar exata ambiente_exemplo db_exemplo_b ''B''
               \<lparr>OperacaoConversao.moeda_origem = ''USD'', moeda_destino = ''EUR'',
                  valor = 50, chave_privada = ''chave-b''\<rparr>)) (''B'', 1) = Some 49
     \<and> saldo_carteira
        (fst (converter_ar exata ambiente_exemplo db_exemplo_b ''B''
               \<lparr>OperacaoConversao.moeda_origem = ''USD'', moeda_destino = ''EUR'',
                  valor = 50, chave_privada = ''chave-b''\<rparr>)) (''B'', 2) = Some 45"
    by (simp add: converter_ar_def ar_defs exata_def db_exemplo_b_def depositar_def repo_defs
        ex_defs)
  have e4: "snd (transferir_ar exata ambiente_exemplo db_exemplo_b ''B''
            \<lparr>OperacaoTransferencia.endereco_destino = ''W'', codigo_moeda = ''USD'',
               valor = 10, chave_privada = ''chave-b''\<rparr>)
       = Inr \<lparr>id_transferencia = 1, ReciboTransferencia.endereco_origem = ''B'',
              ReciboTransferencia.endereco_destino = ''W'', moeda = ''USD'',
              valor_transferido = 10, ReciboTransferencia.taxa_paga = 1 / 10\<rparr>
     \<and> saldo_carteira
        (fst (transferir_ar exata ambiente_exemplo db_exemplo_b ''B''
               \<lparr>OperacaoTransferencia.endereco_destino = ''W'', codigo_moeda = ''USD'',
                  valor = 10, chave_privada = ''chave-b''\<rparr>)) (''B'', 1) = Some (899 / 10)
     \<and> saldo_carteira
        (fst (transferir_ar exata ambiente_exemplo db_exemplo_b ''B''
               \<lparr>OperacaoTransferencia.endereco_destino = ''W'', codigo_moeda = ''USD'',
                  valor = 10, chave_privada = ''chave-b''\<rparr>)) (''W'', 1) = Some 110"
    by (simp add: transferir_ar_def ar_defs exata_def db_exemplo_b_def depositar_def repo_defs
        ex_defs)
  show ?thesis
    using carteira_bloqueada_mesmo_efeito
            [OF h1 h2,
             where ar = exata and env = ambiente_exemplo
               and dd = "\<lparr>OperacaoDeposito.codigo_moeda = ''EUR'', valor = 5\<rparr>" and ca = 2
               and ds = "\<lparr>OperacaoSaque.codigo_moeda = ''USD'', valor = 10,
                           chave_privada = ''chave-b''\<rparr>"
               and cb = 1 and vb = 100
               and dc = "\<lparr>OperacaoConversao.moeda_origem = ''USD'', moeda_destino = ''EUR'',
                           valor = 50, chave_privada = ''chave-b''\<rparr>"
               and cc = 1 and cd = 2 and r = "9 / 10" and vc = 100
               and dt = "\<lparr>OperacaoTransferencia.endereco_destino = ''W'',
                           codigo_moeda = ''USD'', valor = 10, chave_privada = ''chave-b''\<rparr>"
               and ce = 1 and ve = 100
               and destino = "\<lparr>data_criacao = 0, status = ATIVA,
                                hash_chave_privada = hash_de_exemplo ''chave-w''\<rparr>"]
          h1 b0 e1 e2 e3 e4
    by simp
qed

section \<open>Failures leave the store as it was\<close>

text \<open>
  Claim C8: whenever \<open>depositar\<close>, \<open>sacar\<close>, \<open>converter\<close> or \<open>transferir\<close> fails
  with one of the service's errors, the whole store (wallets, balances and the three
  ledgers) is the store before the call.
\<close>

theorem falha_nao_altera_estado:
  "(isl (snd (depositar s wd dd)) \<longrightarrow> fst (depositar s wd dd) = s)
   \<and> (isl (snd (sacar env s ws ds)) \<longrightarrow> fst (sacar env s ws ds) = s)
   \<and> (isl (snd (converter env s wc dc)) \<longrightarrow> fst (converter env s wc dc) = s)
   \<and> (isl (snd (transferir env s wt dt)) \<longrightarrow> fst (transferir env s wt dt) = s)"
proof (intro conjI impI)
  assume "isl (snd (depositar s wd dd))"
  then show "fst (depositar s wd dd) = s"
    by (auto simp: depositar_def realizar_deposito_def Let_def split: option.splits if_splits)
next
  assume "isl (snd (sacar env s ws ds))"
  then show "fst (sacar env s ws ds) = s"
    by (auto simp: sacar_def realizar_saque_def Let_def split: option.splits if_splits)
next
  assume "isl (snd (converter env s wc dc))"
  then show "fst (converter env s wc dc) = s"
    by (auto simp: converter_def realizar_conversao_def Let_def split: option.splits if_splits)
next
  assume "isl (snd (transferir env s wt dt))"
  then show "fst (transferir env s wt dt) = s"
    by (auto simp: transferir_def realizar_transferencia_def Let_def split: option.splits if_splits)
qed

text \<open>
  An unknown currency, an insufficient balance, a pair with no quote, and an unknown
  destination.
\<close>

theorem falha_nao_altera_estado_witness:
  "depositar db_exemplo ''W'' \<lparr>OperacaoDeposito.codigo_moeda = ''XYZ'', valor = 5\<rparr>
     = (db_exemplo, Inl InvalidCurrency)
   \<and> sacar ambiente_exemplo db_exemplo ''W''
       \<lparr>OperacaoSaque.codigo_moeda = ''USD'', valor = 100, chave_privada = ''chave-w''\<rparr>
     = (db_exemplo, Inl InsufficientFunds)
   \<and> converter ambiente_exemplo db_exemplo ''W''
       \<lparr>OperacaoConversao.moeda_origem = ''EUR'', moeda_destino = ''EUR'',
          valor = 50, chave_privada = ''chave-w''\<rparr>
     = (db_exemplo, Inl QuoteUnavailable)
   \<and> transferir ambiente_exemplo db_exemplo ''W''
       \<lparr>OperacaoTransferencia.endereco_destino = ''Z'', codigo_moeda = ''USD'',
          valor = 10, chave_privada = ''chave-w''\<rparr>
     = (db_exemplo, Inl NotFound)"
  using falha_nao_altera_estado
          [where s = db_exemplo and env = ambiente_exemplo
             and wd = "''W''" and ws = "''W''" and wc = "''W''" and wt = "''W''"
             and dd = "\<lparr>OperacaoDeposito.codigo_moeda = ''XYZ'', valor = 5\<rparr>"
             and ds = "\<lparr>OperacaoSaque.codigo_moeda = ''USD'', valor = 100,
                         chave_privada = ''chave-w''\<rparr>"
             and dc = "\<lparr>OperacaoConversao.moeda_origem = ''EUR'', moeda_destino = ''EUR'',
                         valor = 50, chave_privada = ''chave-w''\<rparr>"
             and dt = "\<lparr>OperacaoTransferencia.endereco_destino = ''Z'',
                         codigo_moeda = ''USD'', valor = 10, chave_privada = ''chave-w''\<rparr>"]
  by (simp add: depositar_def sacar_def converter_def transferir_def repo_defs ex_defs)

section \<open>Overlapping withdrawals\<close>

text \<open>
  A request that runs alone, both its steps one after the other, is a call of
  \<open>sacar_ar\<close>; and a run of requests that all fail leaves the store as it is.
\<close>

lemma executar_append:
  "executar ar env (xs @ ys) c = executar ar env ys (executar ar env xs c)"
proof (induction xs arbitrary: c)
  case Nil
  then show ?case by simp
next
  case (Cons i xs)
  obtain s ps where c: "c = (s, ps)" by (cases c)
  show ?case
    by (simp add: c Cons.IH split: prod.splits)
qed

lemma executar_pedido_inteiro:
  assumes "i = length xs"
  shows "executar ar env [i, i] (s, xs @ (e, d, Aguardando) # ys)
           = (fst (sacar_ar ar env s e d),
              xs @ (e, d, Terminado (snd (sacar_ar ar env s e d))) # ys)"
  using assms
  by (auto simp add: sacar_ar_def nth_append split: sum.splits prod.splits)

lemma executar_todos_falham:
  assumes "sacar_ar ar env s e d = (s, Inl x)"
  shows "length xs = j \<Longrightarrow>
         executar ar env (concat (map (\<lambda>i. [i, i]) [j..<j + n]))
           (s, xs @ replicate n (e, d, Aguardando))
         = (s, xs @ replicate n (e, d, Terminado (Inl x)))"
proof (induction n arbitrary: xs j)
  case 0
  then show ?case by simp
next
  case (Suc n)
  have sched: "concat (map (\<lambda>i. [i, i]) [j..<j + Suc n])
                 = [j, j] @ concat (map (\<lambda>i. [i, i]) [Suc j..<Suc j + n])"
    by (simp add: upt_conv_Cons)
  have one: "executar ar env [j, j] (s, xs @ (e, d, Aguardando) # replicate n (e, d, Aguardando))
               = (s, (xs @ [(e, d, Terminado (Inl x))]) @ replicate n (e, d, Aguardando))"
    using executar_pedido_inteiro [of j xs ar env s e d "replicate n (e, d, Aguardando)"]
          Suc.prems assms
    by simp
  have rest: "executar ar env (concat (map (\<lambda>i. [i, i]) [Suc j..<Suc j + n]))
                (s, (xs @ [(e, d, Terminado (Inl x))]) @ replicate n (e, d, Aguardando))
              = (s, (xs @ [(e, d, Terminado (Inl x))]) @ replicate n (e, d, Terminado (Inl x)))"
    using Suc.IH [of "xs @ [(e, d, Terminado (Inl x))]" "Suc j"] Suc.prems
    by simp
  show ?case
    unfolding sched executar_append
    using one rest by simp
qed

lemma em_serie_Suc:
  "em_serie (Suc n) = [0, 0] @ concat (map (\<lambda>i. [i, i]) [Suc 0..<Suc 0 + n])"
  by (simp add: em_serie_def upt_conv_Cons del: upt_Suc)

text \<open>
  Claim C9, as written: K concurrent withdrawals of balance / K each, where the balance
  covers one of them, give exactly one success and K - 1 \<open>InsufficientFunds\<close>, with no
  overdraft, because check and debit are serialized per wallet and currency. The code
  reads the balance (line 100) and debits it (line 104) in two separate
  \<open>get_connection\<close> blocks, and nothing orders the blocks of one request against those
  of another. With 100 USD and two withdrawals of 50 (each needs 50.50, and alone the
  second is refused), the schedule check, check, debit, debit lets both succeed and
  leaves -1 USD.
\<close>

theorem saques_intercalados_counterexample:
  "OperacaoSaque.valor (saque_w_usd 50) = buscar_saldo_especifico_ar exata (db_w_usd 100) ''W'' 1 / 2
   \<and> snd (sacar_ar exata ambiente_exemplo
            (fst (sacar_ar exata ambiente_exemplo (db_w_usd 100) ''W'' (saque_w_usd 50)))
            ''W'' (saque_w_usd 50)) = Inl InsufficientFunds
   \<and> snd (executar exata ambiente_exemplo [0, 1, 0, 1]
            (db_w_usd 100,
             [(''W'', saque_w_usd 50, Aguardando), (''W'', saque_w_usd 50, Aguardando)]))
       = [(''W'', saque_w_usd 50,
           Terminado (Inr \<lparr>id_movimento = 1, ReciboMovimentacao.tipo = ''SAQUE'',
                            ReciboMovimentacao.valor = 50, taxa = 1 / 2,
                            saldo_atual = 99 / 2\<rparr>)),
          (''W'', saque_w_usd 50,
           Terminado (Inr \<lparr>id_movimento = 2, ReciboMovimentacao.tipo = ''SAQUE'',
                            ReciboMovimentacao.valor = 50, taxa = 1 / 2,
                            saldo_atual = - 1\<rparr>))]
   \<and> saldo_carteira
        (fst (executar exata ambiente_exemplo [0, 1, 0, 1]
               (db_w_usd 100,
                [(''W'', saque_w_usd 50, Aguardando), (''W'', saque_w_usd 50, Aguardando)])))
        (''W'', 1) = Some (- 1)
   \<and> saldo_carteira
        (fst (executar binario64 ambiente_64 [0, 1, 0, 1]
               (db_w_usd 100,
                [(''W'', saque_w_usd 50, Aguardando), (''W'', saque_w_usd 50, Aguardando)])))
        (''W'', 1) = Some (- 1)"
proof -
  have a: "OperacaoSaque.valor (saque_w_usd 50)
             = buscar_saldo_especifico_ar exata (db_w_usd 100) ''W'' 1 / 2"
    by (simp add: ar_defs ex_defs ex64_defs exata_def)
  have b: "snd (sacar_ar exata ambiente_exemplo
            (fst (sacar_ar exata ambiente_exemplo (db_w_usd 100) ''W'' (saque_w_usd 50)))
            ''W'' (saque_w_usd 50)) = Inl InsufficientFunds"
    by (simp add: sacar_ar_def ar_defs ex_defs ex64_defs exata_def)
  have c: "executar exata ambiente_exemplo [0, 1, 0, 1]
            (db_w_usd 100,
             [(''W'', saque_w_usd 50, Aguardando), (''W'', saque_w_usd 50, Aguardando)])
       = (db_exemplo
            \<lparr>deposito_saque :=
               [\<lparr>deposito_saque_row.endereco_carteira = ''W'', id_moeda = 1,
                  deposito_saque_row.tipo = ''SAQUE'', deposito_saque_row.valor = 50,
                  deposito_saque_row.taxa_valor = 1 / 2\<rparr>,
                \<lparr>deposito_saque_row.endereco_carteira = ''W'', id_moeda = 1,
                  deposito_saque_row.tipo = ''SAQUE'', deposito_saque_row.valor = 50,
                  deposito_saque_row.taxa_valor = 1 / 2\<rparr>],
             saldo_carteira := [(''W'', 1) \<mapsto> - 1]\<rparr>,
          [(''W'', saque_w_usd 50,
           Terminado (Inr \<lparr>id_movimento = 1, ReciboMovimentacao.tipo = ''SAQUE'',
                            ReciboMovimentacao.valor = 50, taxa = 1 / 2,
                            saldo_atual = 99 / 2\<rparr>)),
          (''W'', saque_w_usd 50,
           Terminado (Inr \<lparr>id_movimento = 2, ReciboMovimentacao.tipo = ''SAQUE'',
                            ReciboMovimentacao.valor = 50, taxa = 1 / 2,
                            saldo_atual = - 1\<rparr>))])"
    by (simp add: ar_defs ex_defs ex64_defs exata_def)
  have d: "saldo_carteira
        (fst (executar binario64 ambiente_64 [0, 1, 0, 1]
               (db_w_usd 100,
                [(''W'', saque_w_usd 50, Aguardando), (''W'', saque_w_usd 50, Aguardando)])))
        (''W'', 1) = Some (- 1)"
    by (simp add: ar_defs ex_defs ex64_defs arred_simps)
  from a b c d show ?thesis by simp
qed

text \<open>
  Claim C9, amended: when K withdrawals of the same amount by one wallet in one currency
  run one after the other, each doing its check and its debit before the next starts,
  and the stored balance covers the total of one withdrawal but, once debited, no longer
  does, then exactly one succeeds, the first, the other K - 1 fail with
  \<open>InsufficientFunds\<close>, and the balance is debited once. The code itself does not make
  overlapping requests run one after the other.
\<close>

theorem saques_em_serie_um_sucesso:
  assumes "buscar_por_endereco s w = Some linha"
      and "hash_chave_privada linha = sha256_hexdigest env (OperacaoSaque.chave_privada d)"
      and "buscar_id_moeda s (OperacaoSaque.codigo_moeda d) = Some c"
      and "c \<noteq> 0"
      and "saldo_carteira s (w, c) = Some v"
      and "\<not> float_de_saldo ar v
               < float_add ar (OperacaoSaque.valor d)
                   (float_mul ar (OperacaoSaque.valor d) (TAXA_SAQUE_PERCENTUAL env))"
      and "float_de_saldo ar
             (sql_menos ar v
                (float_add ar (OperacaoSaque.valor d)
                   (float_mul ar (OperacaoSaque.valor d) (TAXA_SAQUE_PERCENTUAL env))))
             < float_add ar (OperacaoSaque.valor d)
                 (float_mul ar (OperacaoSaque.valor d) (TAXA_SAQUE_PERCENTUAL env))"
  shows "executar ar env (em_serie (Suc n)) (s, replicate (Suc n) (w, d, Aguardando))
           = (fst (sacar_ar ar env s w d),
              (w, d, Terminado (snd (sacar_ar ar env s w d)))
                # replicate n (w, d, Terminado (Inl InsufficientFunds)))
       \<and> \<not> isl (snd (sacar_ar ar env s w d))
       \<and> saldo_carteira (fst (sacar_ar ar env s w d)) (w, c)
           = Some (sql_menos ar v
                     (float_add ar (OperacaoSaque.valor d)
                        (float_mul ar (OperacaoSaque.valor d) (TAXA_SAQUE_PERCENTUAL env))))"
proof -
  let ?s1 = "fst (sacar_ar ar env s w d)"
  have ok: "\<not> isl (snd (sacar_ar ar env s w d))"
    using assms by (simp add: sacar_ar_def ar_defs)
  have bal: "saldo_carteira ?s1 (w, c)
           = Some (sql_menos ar v
                     (float_add ar (OperacaoSaque.valor d)
                        (float_mul ar (OperacaoSaque.valor d) (TAXA_SAQUE_PERCENTUAL env))))"
    using assms by (simp add: sacar_ar_def ar_defs)
  have tabs: "carteira ?s1 = carteira s" "moeda ?s1 = moeda s"
    using assms by (simp_all add: sacar_ar_def ar_defs)
  have falha: "sacar_ar ar env ?s1 w d = (?s1, Inl InsufficientFunds)"
    using assms(1-4,7) bal tabs
    by (simp add: sacar_ar_def sacar_verificar_def buscar_por_endereco_def buscar_id_moeda_def
        buscar_saldo_especifico_ar_def py_not_def Let_def)
  have first: "executar ar env [0, 0] (s, [] @ (w, d, Aguardando) # replicate n (w, d, Aguardando))
                 = (?s1, [] @ (w, d, Terminado (snd (sacar_ar ar env s w d)))
                            # replicate n (w, d, Aguardando))"
    by (rule executar_pedido_inteiro) simp
  have rest: "executar ar env (concat (map (\<lambda>i. [i, i]) [Suc 0..<Suc 0 + n]))
                (?s1, [(w, d, Terminado (snd (sacar_ar ar env s w d)))]
                        @ replicate n (w, d, Aguardando))
              = (?s1, [(w, d, Terminado (snd (sacar_ar ar env s w d)))]
                        @ replicate n (w, d, Terminado (Inl InsufficientFunds)))"
    by (rule executar_todos_falham [OF falha]) simp
  have run: "executar ar env (em_serie (Suc n)) (s, replicate (Suc n) (w, d, Aguardando))
           = (?s1, (w, d, Terminado (snd (sacar_ar ar env s w d)))
                # replicate n (w, d, Terminado (Inl InsufficientFunds)))"
    unfolding em_serie_Suc executar_append
    using first rest by simp
  from run ok bal show ?thesis by blast
qed

text \<open>
  Three withdrawals of 50 from 100 USD, one after the other, in exact arithmetic and in
  floats: one receipt, two refusals, 49.50 left.
\<close>

theorem saques_em_serie_um_sucesso_witness:
  "executar exata ambiente_exemplo (em_serie (Suc 2))
     (db_w_usd 100, replicate (Suc 2) (''W'', saque_w_usd 50, Aguardando))
     = (db_exemplo
          \<lparr>deposito_saque :=
             [\<lparr>deposito_saque_row.endereco_carteira = ''W'', id_moeda = 1,
                deposito_saque_row.tipo = ''SAQUE'', deposito_saque_row.valor = 50,
                deposito_saque_row.taxa_valor = 1 / 2\<rparr>],
           saldo_carteira := [(''W'', 1) \<mapsto> 99 / 2]\<rparr>,
        (''W'', saque_w_usd 50,
         Terminado (Inr \<lparr>id_movimento = 1, ReciboMovimentacao.tipo = ''SAQUE'',
                          ReciboMovimentacao.valor = 50, taxa = 1 / 2,
                          saldo_atual = 99 / 2\<rparr>))
          # replicate 2 (''W'', saque_w_usd 50, Terminado (Inl InsufficientFunds)))
   \<and> saldo_carteira
        (fst (executar binario64 ambiente_64 (em_serie (Suc 2))
               (db_w_usd 100, replicate (Suc 2) (''W'', saque_w_usd 50, Aguardando))))
        (''W'', 1) = Some (99 / 2)
   \<and> map (\<lambda>p. isl (case snd (snd p) of Terminado r \<Rightarrow> r | _ \<Rightarrow> Inl NotFound))
        (snd (executar binario64 ambiente_64 (em_serie (Suc 2))
               (db_w_usd 100, replicate (Suc 2) (''W'', saque_w_usd 50, Aguardando))))
       = [False, True, True]"
proof -
  let ?linha = "\<lparr>data_criacao = 0, status = ATIVA,
                 hash_chave_privada = hash_de_exemplo ''chave-w''\<rparr>"
  have h1: "buscar_por_endereco (db_w_usd 100) ''W'' = Some ?linha"
    by (simp add: ar_defs ex_defs ex64_defs)
  have h2: "hash_chave_privada ?linha
              = sha256_hexdigest ambiente_exemplo (OperacaoSaque.chave_privada (saque_w_usd 50))"
           "hash_chave_privada ?linha
              = sha256_hexdigest ambiente_64 (OperacaoSaque.chave_privada (saque_w_usd 50))"
    by (simp_all add: ex_defs ex64_defs)
  have h3: "buscar_id_moeda (db_w_usd 100) (OperacaoSaque.codigo_moeda (saque_w_usd 50)) = Some 1"
    by (simp add: ar_defs ex_defs ex64_defs)
  have h4: "(1::int) \<noteq> 0" by simp
  have h5: "saldo_carteira (db_w_usd 100) (''W'', 1) = Some 100"
    by (simp add: ex_defs ex64_defs)
  have h6: "\<not> float_de_saldo exata 100
               < float_add exata (OperacaoSaque.valor (saque_w_usd 50))
                   (float_mul exata (OperacaoSaque.valor (saque_w_usd 50))
                      (TAXA_SAQUE_PERCENTUAL ambiente_exemplo))"
    by (simp add: exata_def ex_defs ex64_defs)
  have h7: "float_de_saldo exata
             (sql_menos exata 100
                (float_add exata (OperacaoSaque.valor (saque_w_usd 50))
                   (float_mul exata (OperacaoSaque.valor (saque_w_usd 50))
                      (TAXA_SAQUE_PERCENTUAL ambiente_exemplo))))
             < float_add exata (OperacaoSaque.valor (saque_w_usd 50))
                 (float_mul exata (OperacaoSaque.valor (saque_w_usd 50))
                    (TAXA_SAQUE_PERCENTUAL ambiente_exemplo))"
    by (simp add: exata_def ex_defs ex64_defs)
  have g6: "\<not> float_de_saldo binario64 100
               < float_add binario64 (OperacaoSaque.valor (saque_w_usd 50))
                   (float_mul binario64 (OperacaoSaque.valor (saque_w_usd 50))
                      (TAXA_SAQUE_PERCENTUAL ambiente_64))"
    by (simp add: ex_defs ex64_defs arred_simps)
  have g7: "float_de_saldo binario64
             (sql_menos binario64 100
                (float_add binario64 (OperacaoSaque.valor (saque_w_usd 50))
                   (float_mul binario64 (OperacaoSaque.valor (saque_w_usd 50))
                      (TAXA_SAQUE_PERCENTUAL ambiente_64))))
             < float_add binario64 (OperacaoSaque.valor (saque_w_usd 50))
                 (float_mul binario64 (OperacaoSaque.valor (saque_w_usd 50))
                    (TAXA_SAQUE_PERCENTUAL ambiente_64))"
    by (simp add: ex_defs ex64_defs arred_simps)
  have e1: "sacar_ar exata ambiente_exemplo (db_w_usd 100) ''W'' (saque_w_usd 50)
     = (db_exemplo
          \<lparr>deposito_saque :=
             [\<lparr>deposito_saque_row.endereco_carteira = ''W'', id_moeda = 1,
                deposito_saque_row.tipo = ''SAQUE'', deposito_saque_row.valor = 50,
                deposito_saque_row.taxa_valor = 1 / 2\<rparr>],
           saldo_carteira := [(''W'', 1) \<mapsto> 99 / 2]\<rparr>,
        Inr \<lparr>id_movimento = 1, ReciboMovimentacao.tipo = ''SAQUE'',
              ReciboMovimentacao.valor = 50, taxa = 1 / 2, saldo_atual = 99 / 2\<rparr>)"
    by (simp add: sacar_ar_def ar_defs ex_defs ex64_defs exata_def)
  have e2: "sql_menos binario64 100
                (float_add binario64 (OperacaoSaque.valor (saque_w_usd 50))
                   (float_mul binario64 (OperacaoSaque.valor (saque_w_usd 50))
                      (TAXA_SAQUE_PERCENTUAL ambiente_64))) = 99 / 2"
    by (simp add: ex_defs ex64_defs arred_simps)
  note t1 = saques_em_serie_um_sucesso [OF h1 h2(1) h3 h4 h5 h6 h7, of 2]
  note t2 = saques_em_serie_um_sucesso [OF h1 h2(2) h3 h4 h5 g6 g7, of 2]
  show ?thesis
    using t1 t2 e1 e2 by (simp add: numeral_2_eq_2)
qed

section \<open>Deposit checks the currency and nothing else\<close>

text \<open>
  Claim C10: \<open>depositar\<close> looks neither for the wallet nor for a key. It fails exactly
  when the currency code does not resolve (\<open>not id_moeda\<close>), with \<open>InvalidCurrency\<close>
  and nothing changed; otherwise, for every address, it appends the movement and upserts
  the balance; and its outcome is the same whatever the wallets table holds, in
  particular when it holds no wallet at all.
\<close>

theorem depositar_sem_verificar_carteira:
  "isl (snd (depositar s e d)) = py_not (buscar_id_moeda s (OperacaoDeposito.codigo_moeda d))
   \<and> (isl (snd (depositar s e d)) \<longrightarrow> depositar s e d = (s, Inl InvalidCurrency))
   \<and> (buscar_id_moeda s (OperacaoDeposito.codigo_moeda d) = Some c \<longrightarrow> c \<noteq> 0 \<longrightarrow>
        deposito_saque (fst (depositar s e d))
          = deposito_saque s
            @ [\<lparr>deposito_saque_row.endereco_carteira = e, id_moeda = c,
                 deposito_saque_row.tipo = ''DEPOSITO'',
                 deposito_saque_row.valor = OperacaoDeposito.valor d,
                 deposito_saque_row.taxa_valor = 0\<rparr>]
        \<and> saldo_carteira (fst (depositar s e d)) (e, c)
            = Some (buscar_saldo_especifico s e c + OperacaoDeposito.valor d))
   \<and> depositar (s\<lparr>carteira := cs\<rparr>) e d
       = ((fst (depositar s e d))\<lparr>carteira := cs\<rparr>, snd (depositar s e d))"
  by (auto simp add: depositar_def repo_defs split: option.splits)

text \<open>An address for which no wallet was ever created receives 7 USD.\<close>

theorem depositar_sem_verificar_carteira_witness:
  "buscar_por_endereco db_exemplo ''ninguem'' = None
   \<and> \<not> isl (snd (depositar db_exemplo ''ninguem''
                 \<lparr>OperacaoDeposito.codigo_moeda = ''USD'', valor = 7\<rparr>))
   \<and> deposito_saque
        (fst (depositar db_exemplo ''ninguem''
               \<lparr>OperacaoDeposito.codigo_moeda = ''USD'', valor = 7\<rparr>))
       = [\<lparr>deposito_saque_row.endereco_carteira = ''ninguem'', id_moeda = 1,
            deposito_saque_row.tipo = ''DEPOSITO'', deposito_saque_row.valor = 7,
            deposito_saque_row.taxa_valor = 0\<rparr>]
   \<and> saldo_carteira
        (fst (depositar db_exemplo ''ninguem''
               \<lparr>OperacaoDeposito.codigo_moeda = ''USD'', valor = 7\<rparr>))
        (''ninguem'', 1) = Some 7
   \<and> \<not> isl (snd (depositar (db_exemplo\<lparr>carteira := Map.empty\<rparr>) ''ninguem''
                 \<lparr>OperacaoDeposito.codigo_moeda = ''USD'', valor = 7\<rparr>))"
  using depositar_sem_verificar_carteira
          [where s = db_exemplo and e = "''ninguem''" and c = 1 and cs = Map.empty
             and d = "\<lparr>OperacaoDeposito.codigo_moeda = ''USD'', valor = 7\<rparr>"]
  by (simp add: depositar_def repo_defs ex_defs)

end
